theory Spec2Isabelle
  imports Complex_Main "HOL-Library.Sublist"
begin

section \<open>EVAQUA: glacier melt, runoff and flood-risk model chain\<close>

text \<open>
  A shallow embedding of the model chain of \<^verbatim>\<open>src/src/evaqua.py\<close>
  (\<^verbatim>\<open>EVAQUACalculator\<close>), of the division rule of
  \<^verbatim>\<open>src/src/hru_generator.py\<close> (\<^verbatim>\<open>HRUGenerator\<close>), with the cache of its
  results, and of the critical banner of \<^verbatim>\<open>src/app.py\<close>.

  Numbers. The program computes on Python floats. Finite floats are embedded as
  \<^typ>\<open>real\<close> numbers and the arithmetic is the exact one: rounding and overflow
  (hence the infinities) are not modelled. Comparisons of floats are exact in the
  program too, so the branch taken by a comparison is the same in the model. The
  missing value of pandas, NaN, is modelled where the program can produce it from
  finite inputs: in the score given to the classifier, in the model-grid elevation of
  a climate row and in the cells a left join leaves empty.
\<close>

subsection \<open>Python floats with NaN\<close>

datatype pyfloat = Num real | NaN

text \<open>\<^verbatim>\<open>a <= b\<close> and \<^verbatim>\<open>a < b\<close> on floats: false as soon as one side is NaN.\<close>

fun py_le :: "pyfloat \<Rightarrow> pyfloat \<Rightarrow> bool" where
  "py_le (Num a) (Num b) = (a \<le> b)"
| "py_le _ _ = False"

fun py_lt :: "pyfloat \<Rightarrow> pyfloat \<Rightarrow> bool" where
  "py_lt (Num a) (Num b) = (a < b)"
| "py_lt _ _ = False"

text \<open>Float arithmetic: NaN as soon as one operand is NaN.\<close>

fun py_add :: "pyfloat \<Rightarrow> pyfloat \<Rightarrow> pyfloat" where
  "py_add (Num a) (Num b) = Num (a + b)"
| "py_add _ _ = NaN"

fun py_sub :: "pyfloat \<Rightarrow> pyfloat \<Rightarrow> pyfloat" where
  "py_sub (Num a) (Num b) = Num (a - b)"
| "py_sub _ _ = NaN"

fun py_mul :: "pyfloat \<Rightarrow> pyfloat \<Rightarrow> pyfloat" where
  "py_mul (Num a) (Num b) = Num (a * b)"
| "py_mul _ _ = NaN"

text \<open>
  The builtin \<^verbatim>\<open>max(a, b)\<close> keeps its first argument unless the second is
  greater: \<^verbatim>\<open>max(0, nan)\<close> is 0.
\<close>

definition py_max :: "pyfloat \<Rightarrow> pyfloat \<Rightarrow> pyfloat" where
  "py_max a b = (if py_lt a b then b else a)"

text \<open>Exceptions of the Python code that the model keeps as values.\<close>

datatype py_error = KeyError | IndexError | TypeError | ValueError

subsection \<open>Constants of the calculator\<close>

definition DEGREE_DAY_FACTOR_ICE :: real where
  "DEGREE_DAY_FACTOR_ICE = 8.0"

definition DEGREE_DAY_FACTOR_SNOW :: real where
  "DEGREE_DAY_FACTOR_SNOW = 4.0"

definition BASE_TEMP_THRESHOLD :: real where
  "BASE_TEMP_THRESHOLD = 0.0"

text \<open>
  \<^verbatim>\<open>RUNOFF_COEFFICIENTS\<close> and \<^verbatim>\<open>RISK_LEVELS\<close> are dicts; a Python dict keeps its
  keys in insertion order, so each is an association list in the order of the source.
\<close>

definition RUNOFF_COEFFICIENTS :: "(string \<times> real) list" where
  "RUNOFF_COEFFICIENTS =
     [(''muy_baja'', 0.20), (''baja'', 0.35), (''media'', 0.50), (''alta'', 0.70)]"

text \<open>The label of the last level has an accented i, which is two bytes (C3 AD) of UTF-8.\<close>

definition RISK_LEVELS :: "(string \<times> (real \<times> real \<times> string \<times> string)) list" where
  "RISK_LEVELS =
     [(''bajo'', (0.0, 0.25, ''#2ecc71'', ''Bajo'')),
      (''medio'', (0.25, 0.50, ''#f39c12'', ''Medio'')),
      (''alto'', (0.50, 0.75, ''#e67e22'', ''Alto'')),
      (''critico'', (0.75, 1.0, ''#e74c3c'', ''Cr'' @ [CHR 0xC3, CHR 0xAD] @ ''tico''))]"

subsection \<open>Risk classification\<close>

text \<open>
  \<^verbatim>\<open>
  def _classify_risk(self, score):
      for risk_level, (min_val, max_val, color, label) in RISK_LEVELS.items():
          if min_val <= score < max_val:
              return risk_level
      return 'critico'
  \<close>
  The loop over the items of the table is \<open>classify_loop\<close>; the chained comparison
  \<^verbatim>\<open>min_val <= score < max_val\<close> is the conjunction of its two halves.
\<close>

fun classify_loop :: "(string \<times> (real \<times> real \<times> string \<times> string)) list \<Rightarrow> pyfloat \<Rightarrow> string" where
  "classify_loop [] score = ''critico''"
| "classify_loop ((risk_level, (min_val, max_val, color, label)) # items) score =
     (if py_le (Num min_val) score \<and> py_lt score (Num max_val) then risk_level
      else classify_loop items score)"

definition classify_risk :: "pyfloat \<Rightarrow> string" where
  "classify_risk score = classify_loop RISK_LEVELS score"

subsection \<open>Tables of the calculator\<close>

text \<open>
  The calculator keeps its tables as pandas data frames in attributes of \<^verbatim>\<open>self\<close>.
  A table is the list of its rows, in order, and a row is a record of the columns that
  the model chain reads or writes. A column that a table may lack is an option field,
  \<open>None\<close> in a row when the column is absent.

  \<^verbatim>\<open>grids_gdf\<close> (the HRU base table). After \<^verbatim>\<open>load_base_data\<close> it always has the
  column \<^verbatim>\<open>grid_id\<close>, so \<^verbatim>\<open>grid['grid_id'] if 'grid_id' in grid else idx\<close> is the
  grid id. \<open>g_geom_area_km2\<close> is the area of the row's geometry projected to EPSG:32719,
  in square kilometres, as geopandas computes it.
\<close>

record grid_row =
  g_grid_id :: int
  g_area_km2 :: "real option"
  g_geom_area_km2 :: real
  g_glacier_area_km2 :: "real option"
  g_elevation_mean :: "pyfloat option"

record glacier_row =
  gl_grid_id :: int
  area_in_grid :: real

record topo_row =
  t_grid_id :: int
  t_elevation_mean :: real
  slope_mean :: real

text \<open>
  A cell that may hold Python's \<^verbatim>\<open>None\<close>: \<open>Absent\<close> when the row has no such key (in
  a data frame: the table has no such column), \<open>PyNone\<close> for \<^verbatim>\<open>None\<close>, a float otherwise.
\<close>

datatype cell = Absent | PyNone | Float pyfloat

text \<open>
  The climate record of one location, as far as the model chain reads it, and the row
  of \<^verbatim>\<open>climate_data\<close> that \<^verbatim>\<open>get_climate_data\<close> makes of it by adding the grid id.
\<close>

record climate_rec =
  temp_current :: real
  precip_24h :: real
  precip_72h :: real
  snow_24h :: real
  elevation :: cell

record climate_row = climate_rec +
  c_grid_id :: int

record melt_row =
  m_grid_id :: int
  melt_rate_mm_day :: real
  temp_for_melt :: pyfloat
  m_glacier_area_km2 :: real
  snow_recent :: bool

record runoff_row =
  r_grid_id :: int
  runoff_m3s :: real
  runoff_coeff :: real
  slope_percent :: real
  precip_intensity_mm_h :: real

record risk_row =
  k_grid_id :: int
  risk_score :: real
  risk_class :: string
  melt_component :: real
  runoff_component :: real
  precip_component :: real

record proj_row =
  p_grid_id :: int
  melt_3d_mm :: real
  precip_3d_mm :: real
  water_total_3d_mm :: real
  risk_score_3d :: real
  risk_class_3d :: string

text \<open>
  The state of the calculator that the model chain reads. \<^verbatim>\<open>climate_data\<close> and
  \<^verbatim>\<open>topo_data\<close> start as \<^verbatim>\<open>None\<close>.
\<close>

record calculator =
  grids_gdf :: "grid_row list"
  glaciers_gdf :: "glacier_row list"
  climate_data :: "climate_row list option"
  topo_data :: "topo_row list option"

subsection \<open>Reading tables\<close>

text \<open>
  \<^verbatim>\<open>df[df['grid_id'] == gid]\<close> on a frame made by \<^verbatim>\<open>pd.DataFrame(rows)\<close> from a list
  of dicts: the frame of an empty list has no column at all, and \<^verbatim>\<open>df['grid_id']\<close>
  raises KeyError; on \<^verbatim>\<open>None\<close> the subscript raises TypeError.
\<close>

definition frame_select :: "('r \<Rightarrow> int) \<Rightarrow> 'r list \<Rightarrow> int \<Rightarrow> py_error + 'r list" where
  "frame_select key rows gid =
     (if rows = [] then Inl KeyError else Inr (filter (\<lambda>r. key r = gid) rows))"

definition frame_select_opt :: "('r \<Rightarrow> int) \<Rightarrow> 'r list option \<Rightarrow> int \<Rightarrow> py_error + 'r list" where
  "frame_select_opt key df gid =
     (case df of None \<Rightarrow> Inl TypeError | Some rows \<Rightarrow> frame_select key rows gid)"

text \<open>A loop that appends one row per item and stops at the first exception.\<close>

fun traverse :: "('a \<Rightarrow> py_error + 'b) \<Rightarrow> 'a list \<Rightarrow> py_error + 'b list" where
  "traverse f [] = Inr []"
| "traverse f (x # xs) =
     (case f x of
        Inl e \<Rightarrow> Inl e
      | Inr y \<Rightarrow> (case traverse f xs of Inl e \<Rightarrow> Inl e | Inr ys \<Rightarrow> Inr (y # ys)))"

text \<open>The same for a loop whose body may \<^verbatim>\<open>continue\<close> without appending.\<close>

fun traverse_skip :: "('a \<Rightarrow> py_error + 'b option) \<Rightarrow> 'a list \<Rightarrow> py_error + 'b list" where
  "traverse_skip f [] = Inr []"
| "traverse_skip f (x # xs) =
     (case f x of
        Inl e \<Rightarrow> Inl e
      | Inr None \<Rightarrow> traverse_skip f xs
      | Inr (Some y) \<Rightarrow>
          (case traverse_skip f xs of Inl e \<Rightarrow> Inl e | Inr ys \<Rightarrow> Inr (y # ys)))"

subsection \<open>Step 4: melt (degree-day model)\<close>

text \<open>
  The elevation of the unit, in \<^verbatim>\<open>calculate_melt\<close>:
  \<^verbatim>\<open>
  hru_elev = 0
  if 'elevation_mean' in grid_row:
       hru_elev = grid_row.iloc[0]['elevation_mean']
  elif self.topo_data is not None and not self.topo_data.empty:
       topo_match = self.topo_data[self.topo_data['grid_id'] == grid_id]
       if not topo_match.empty:
           hru_elev = topo_match.iloc[0]['elevation_mean']
  \<close>
  \<^verbatim>\<open>grid_row\<close> is the frame of the rows of \<^verbatim>\<open>grids_gdf\<close> with this grid id. The test
  \<^verbatim>\<open>in\<close> asks for the column, which the table has when a row has the cell; a row
  without the cell in such a table reads NaN, and \<^verbatim>\<open>iloc[0]\<close> of an empty frame
  raises IndexError.
\<close>

definition hru_elevation :: "calculator \<Rightarrow> grid_row list \<Rightarrow> int \<Rightarrow> py_error + pyfloat" where
  "hru_elevation self grid_row grid_id =
     (if list_ex (\<lambda>g. g_elevation_mean g \<noteq> None) (grids_gdf self) then
        (case grid_row of
           [] \<Rightarrow> Inl IndexError
         | g # _ \<Rightarrow> Inr (case g_elevation_mean g of Some e \<Rightarrow> e | None \<Rightarrow> NaN))
      else
        (case topo_data self of
           None \<Rightarrow> Inr (Num 0)
         | Some topo \<Rightarrow>
             (if topo = [] then Inr (Num 0)
              else (case filter (\<lambda>t. t_grid_id t = grid_id) topo of
                      [] \<Rightarrow> Inr (Num 0)
                    | t # _ \<Rightarrow> Inr (Num (t_elevation_mean t))))))"

text \<open>
  \<^verbatim>\<open>model_elev = climate.get('elevation', 0)\<close>: the default is taken when the row has
  no such key.
\<close>

definition model_elevation :: "climate_row \<Rightarrow> cell" where
  "model_elevation climate =
     (case elevation climate of Absent \<Rightarrow> Float (Num 0) | c \<Rightarrow> c)"

text \<open>
  \<^verbatim>\<open>
  lapse_rate = -0.0065
  if model_elev is not None and hru_elev > 0:
      diff_elev = hru_elev - model_elev
      adjustment = diff_elev * lapse_rate
      temp = temp + adjustment
  \<close>
\<close>

definition lapse_rate :: real where
  "lapse_rate = - 0.0065"

definition adjust_temp :: "real \<Rightarrow> cell \<Rightarrow> pyfloat \<Rightarrow> pyfloat" where
  "adjust_temp temp model_elev hru_elev =
     (case model_elev of
        Float m \<Rightarrow>
          (if py_lt (Num 0) hru_elev
           then py_add (Num temp) (py_mul (py_sub hru_elev m) (Num lapse_rate))
           else Num temp)
      | _ \<Rightarrow> Num temp)"

text \<open>
  \<^verbatim>\<open>temp_excess = max(0, temp - BASE_TEMP_THRESHOLD)\<close>, a number even when
  \<^verbatim>\<open>temp\<close> is NaN.
\<close>

definition temp_excess_of :: "pyfloat \<Rightarrow> real" where
  "temp_excess_of temp =
     (case py_max (Num 0) (py_sub temp (Num BASE_TEMP_THRESHOLD)) of
        Num x \<Rightarrow> x
      | NaN \<Rightarrow> 0)"

text \<open>
  The body of the loop of \<^verbatim>\<open>calculate_melt\<close> over the rows of
  \<^verbatim>\<open>climate_data\<close>. The glacier area of the unit comes from
  \<^verbatim>\<open>grid_row.iloc[0].get('glacier_area_km2', 0)\<close> when the unit is in the base table,
  and from the sum of \<^verbatim>\<open>area_in_grid\<close> over its glacier fragments otherwise.
\<close>

definition melt_of_row :: "calculator \<Rightarrow> climate_row \<Rightarrow> py_error + melt_row" where
  "melt_of_row self climate =
     (let grid_id = c_grid_id climate;
          grid_row = filter (\<lambda>g. g_grid_id g = grid_id) (grids_gdf self);
          total_area_km2 =
            (case grid_row of
               g # _ \<Rightarrow> (case g_glacier_area_km2 g of Some a \<Rightarrow> a | None \<Rightarrow> 0)
             | [] \<Rightarrow>
                 sum_list (map area_in_grid
                   (filter (\<lambda>x. gl_grid_id x = grid_id) (glaciers_gdf self))) / 1000000)
      in case hru_elevation self grid_row grid_id of
           Inl e \<Rightarrow> Inl e
         | Inr hru_elev \<Rightarrow>
             (let temp = adjust_temp (temp_current climate) (model_elevation climate) hru_elev;
                  temp_excess = temp_excess_of temp;
                  melt_rate =
                    (if snow_24h climate > 0 then DEGREE_DAY_FACTOR_SNOW * temp_excess
                     else DEGREE_DAY_FACTOR_ICE * temp_excess)
              in Inr \<lparr> m_grid_id = grid_id,
                       melt_rate_mm_day = melt_rate,
                       temp_for_melt = temp,
                       m_glacier_area_km2 = total_area_km2,
                       snow_recent = (snow_24h climate > 0) \<rparr>))"

text \<open>
  \<^verbatim>\<open>calculate_melt\<close> returns \<^verbatim>\<open>None\<close> when there is no climate data, and the frame
  of the melt rows otherwise.
\<close>

definition calculate_melt :: "calculator \<Rightarrow> py_error + melt_row list option" where
  "calculate_melt self =
     (case climate_data self of
        None \<Rightarrow> Inr None
      | Some rows \<Rightarrow>
          (if rows = [] then Inr None
           else (case traverse (melt_of_row self) rows of
                   Inl e \<Rightarrow> Inl e
                 | Inr melt_data \<Rightarrow> Inr (Some melt_data))))"

subsection \<open>Step 5: runoff (rational method)\<close>

text \<open>\<^verbatim>\<open>RUNOFF_COEFFICIENTS[key]\<close>: a missing key raises KeyError.\<close>

definition runoff_coefficient :: "string \<Rightarrow> py_error + real" where
  "runoff_coefficient key =
     (case map_of RUNOFF_COEFFICIENTS key of None \<Rightarrow> Inl KeyError | Some v \<Rightarrow> Inr v)"

text \<open>
  \<^verbatim>\<open>
  topo_row = None
  if self.topo_data is not None and not self.topo_data.empty and 'grid_id' in self.topo_data.columns:
      topo_matches = self.topo_data[self.topo_data['grid_id'] == grid_id]
      if not topo_matches.empty:
          topo_row = topo_matches
  \<close>
  A non-empty topography table has the column \<^verbatim>\<open>grid_id\<close>:
  \<^verbatim>\<open>get_topography_for_grids\<close> sets it in every row. \<open>None\<close> is \<^verbatim>\<open>topo_row = None\<close>,
  and a row found is the first one, the only one the code reads (\<^verbatim>\<open>iloc[0]\<close>).
\<close>

definition topo_row_of :: "calculator \<Rightarrow> int \<Rightarrow> topo_row option" where
  "topo_row_of self grid_id =
     (case topo_data self of
        None \<Rightarrow> None
      | Some topo \<Rightarrow>
          (case filter (\<lambda>t. t_grid_id t = grid_id) topo of
             [] \<Rightarrow> None
           | t # _ \<Rightarrow> Some t))"

text \<open>The coefficient chosen from the slope, \<^verbatim>\<open>media\<close> without a topography row.\<close>

definition select_runoff_coeff :: "topo_row option \<Rightarrow> py_error + real" where
  "select_runoff_coeff topo_row =
     (case topo_row of
        Some t \<Rightarrow>
          (let slope = slope_mean t in
           if slope < 5 then runoff_coefficient ''muy_baja''
           else if slope < 10 then runoff_coefficient ''baja''
           else if slope < 20 then runoff_coefficient ''media''
           else runoff_coefficient ''alta'')
      | None \<Rightarrow> runoff_coefficient ''media'')"

text \<open>
  \<^verbatim>\<open>
  if 'area_km2' in grid: area_km2 = grid['area_km2']
  else: area_km2 = (area of the projected geometry) / 1e6
  if area_km2 <= 0: area_km2 = 1.0
  \<close>
\<close>

definition grid_area_km2 :: "grid_row \<Rightarrow> real" where
  "grid_area_km2 grid =
     (let area_km2 = (case g_area_km2 grid of Some a \<Rightarrow> a | None \<Rightarrow> g_geom_area_km2 grid)
      in if area_km2 \<le> 0 then 1.0 else area_km2)"

text \<open>
  The body of the loop of \<^verbatim>\<open>calculate_runoff\<close> over the rows of \<^verbatim>\<open>grids_gdf\<close>;
  \<open>Inr None\<close> is the \<^verbatim>\<open>continue\<close> of a unit without a climate row.
\<close>

definition runoff_of_grid :: "calculator \<Rightarrow> grid_row \<Rightarrow> py_error + runoff_row option" where
  "runoff_of_grid self grid =
     (let grid_id = g_grid_id grid in
      case frame_select_opt c_grid_id (climate_data self) grid_id of
        Inl e \<Rightarrow> Inl e
      | Inr climate_row \<Rightarrow>
          (let topo_row = topo_row_of self grid_id in
           case climate_row of
             [] \<Rightarrow> Inr None
           | c # _ \<Rightarrow>
               (case select_runoff_coeff topo_row of
                  Inl e \<Rightarrow> Inl e
                | Inr coeff \<Rightarrow>
                    (let precip = precip_24h c;
                         intensity = (if precip > 0 then precip / 24 else 0);
                         area_km2 = grid_area_km2 grid
                     in Inr (Some \<lparr> r_grid_id = grid_id,
                                    runoff_m3s = coeff * intensity * area_km2 * 0.278,
                                    runoff_coeff = coeff,
                                    slope_percent =
                                      (case topo_row of Some t \<Rightarrow> slope_mean t | None \<Rightarrow> 0),
                                    precip_intensity_mm_h = intensity \<rparr>)))))"

text \<open>\<^verbatim>\<open>calculate_runoff(melt_df)\<close>; the argument is not read.\<close>

definition calculate_runoff :: "calculator \<Rightarrow> melt_row list option \<Rightarrow> py_error + runoff_row list" where
  "calculate_runoff self melt_df = traverse_skip (runoff_of_grid self) (grids_gdf self)"

subsection \<open>Step 6: flood risk\<close>

text \<open>
  \<^verbatim>\<open>row.iloc[0][column] if not row.empty else 0\<close>, for the rows selected by grid id.
\<close>

definition first_or_zero :: "('r \<Rightarrow> real) \<Rightarrow> 'r list \<Rightarrow> real" where
  "first_or_zero column rows = (case rows of [] \<Rightarrow> 0 | r # _ \<Rightarrow> column r)"

text \<open>The data-dependent weights, as (melt, runoff, precipitation).\<close>

definition risk_weights :: "real \<Rightarrow> real \<times> real \<times> real" where
  "risk_weights melt_val =
     (if melt_val < 0.1 then (0.05, 0.55, 0.40) else (0.40, 0.40, 0.20))"

definition risk_of_grid ::
  "calculator \<Rightarrow> melt_row list option \<Rightarrow> runoff_row list \<Rightarrow> grid_row \<Rightarrow> py_error + risk_row option" where
  "risk_of_grid self melt_df runoff_df grid =
     (let gid = g_grid_id grid in
      case frame_select_opt m_grid_id melt_df gid of
        Inl e \<Rightarrow> Inl e
      | Inr melt_row \<Rightarrow>
          (case frame_select r_grid_id runoff_df gid of
             Inl e \<Rightarrow> Inl e
           | Inr runoff_row \<Rightarrow>
               (case frame_select_opt c_grid_id (climate_data self) gid of
                  Inl e \<Rightarrow> Inl e
                | Inr [] \<Rightarrow> Inr None
                | Inr (c # _) \<Rightarrow>
                    (let melt_val = first_or_zero melt_rate_mm_day melt_row;
                         runoff_val = first_or_zero runoff_m3s runoff_row;
                         precip_val = precip_72h c;
                         (w_melt, w_runoff, w_precip) = risk_weights melt_val;
                         melt_comp = min 1.0 (melt_val / 50);
                         runoff_comp = min 1.0 (runoff_val / 1000);
                         precip_comp = min 1.0 (precip_val / 300);
                         score = (w_melt * melt_comp) + (w_runoff * runoff_comp)
                                   + (w_precip * precip_comp)
                     in Inr (Some \<lparr> k_grid_id = gid,
                                    risk_score = score,
                                    risk_class = classify_risk (Num score),
                                    melt_component = melt_comp,
                                    runoff_component = runoff_comp,
                                    precip_component = precip_comp \<rparr>)))))"

definition calculate_flood_risk ::
  "calculator \<Rightarrow> melt_row list option \<Rightarrow> runoff_row list \<Rightarrow> py_error + risk_row list" where
  "calculate_flood_risk self melt_df runoff_df =
     traverse_skip (risk_of_grid self melt_df runoff_df) (grids_gdf self)"

subsection \<open>Step 6.5: projection to three days\<close>

definition proj_of_grid ::
  "calculator \<Rightarrow> melt_row list option \<Rightarrow> runoff_row list \<Rightarrow> grid_row \<Rightarrow> py_error + proj_row option" where
  "proj_of_grid self melt_df runoff_df grid =
     (let gid = g_grid_id grid in
      case frame_select_opt m_grid_id melt_df gid of
        Inl e \<Rightarrow> Inl e
      | Inr melt_row \<Rightarrow>
          (case frame_select r_grid_id runoff_df gid of
             Inl e \<Rightarrow> Inl e
           | Inr runoff_row \<Rightarrow>
               (case frame_select_opt c_grid_id (climate_data self) gid of
                  Inl e \<Rightarrow> Inl e
                | Inr [] \<Rightarrow> Inr None
                | Inr (c # _) \<Rightarrow>
                    (let melt_rate_day = first_or_zero melt_rate_mm_day melt_row;
                         runoff = first_or_zero runoff_m3s runoff_row;
                         precip = precip_24h c;
                         melt_3d = melt_rate_day * 3;
                         precip_3d = precip * 3;
                         melt_comp_3d = min 1.0 (melt_3d / 150);
                         precip_comp_3d = min 1.0 (precip_3d / 300);
                         runoff_comp_3d = min 1.0 (runoff / 1200);
                         score_3d = (0.35 * melt_comp_3d) + (0.35 * runoff_comp_3d)
                                      + (0.30 * precip_comp_3d)
                     in Inr (Some \<lparr> p_grid_id = gid,
                                    melt_3d_mm = melt_3d,
                                    precip_3d_mm = precip_3d,
                                    water_total_3d_mm = melt_3d + precip_3d,
                                    risk_score_3d = score_3d,
                                    risk_class_3d = classify_risk (Num score_3d) \<rparr>)))))"

definition calculate_projected_risk_3d ::
  "calculator \<Rightarrow> melt_row list option \<Rightarrow> runoff_row list \<Rightarrow> py_error + proj_row list" where
  "calculate_projected_risk_3d self melt_df runoff_df =
     traverse_skip (proj_of_grid self melt_df runoff_df) (grids_gdf self)"

subsection \<open>Steps 2 and 3: topography and climate\<close>

text \<open>
  \<^verbatim>\<open>get_topography_for_grids\<close> samples one point per unit (the centre of its bounds),
  asks the elevation service for all points and makes one topography row per unit from
  the slice \<^verbatim>\<open>all_elevations[start:end]\<close> of its single sample, when the slice has
  that one element. \<open>all_elevations\<close> is what \<^verbatim>\<open>_fetch_elevation_batch_optimized\<close>
  returned: the answer of the service, a list of numbers that need not be as long as the
  list of points. For a matrix of one sample \<^verbatim>\<open>_calculate_topography_metrics_impl\<close>
  returns the sample as mean elevation and the slope 0. The units with a row are the
  first ones, as many as there are elevations.
\<close>

definition get_topography_for_grids :: "calculator \<Rightarrow> real list \<Rightarrow> calculator" where
  "get_topography_for_grids self all_elevations =
     self \<lparr> topo_data :=
       Some (map (\<lambda>(grid, elev). \<lparr> t_grid_id = g_grid_id grid, t_elevation_mean = elev,
                                     slope_mean = 0 \<rparr>)
               (zip (grids_gdf self) all_elevations)) \<rparr>"

text \<open>\<^verbatim>\<open>xs[i:i+n] for i in range(0, len(xs), n)\<close>.\<close>

definition batches :: "nat \<Rightarrow> 'a list \<Rightarrow> 'a list list" where
  "batches n xs =
     map (\<lambda>k. take n (drop (k * n) xs)) [0 ..< (length xs + n - 1) div n]"

text \<open>
  \<^verbatim>\<open>
  for j, result in enumerate(batch_results):
      if result:
          result['grid_id'] = batch_ids[j]
          climate_data.append(result)
  \<close>
  A climate record is a dict with keys, hence true. \<^verbatim>\<open>batch_ids[j]\<close> raises
  IndexError when the service answered with more records than locations.
\<close>

fun attach_ids :: "int list \<Rightarrow> 'a list \<Rightarrow> py_error + (int \<times> 'a) list" where
  "attach_ids batch_ids [] = Inr []"
| "attach_ids [] (result # results) = Inl IndexError"
| "attach_ids (i # batch_ids) (result # results) =
     (case attach_ids batch_ids results of
        Inl e \<Rightarrow> Inl e
      | Inr rows \<Rightarrow> Inr ((i, result) # rows))"

text \<open>
  \<^verbatim>\<open>pd.DataFrame(climate_data)\<close> for the column \<^verbatim>\<open>elevation\<close>, the only key that a
  record may lack: the frame has the column when a record has the key; the cell of a
  record without the key is NaN. pandas infers the type of the column from all its
  cells: a \<^verbatim>\<open>None\<close> stays \<^verbatim>\<open>None\<close> in a column of nothing but \<^verbatim>\<open>None\<close> (of type
  object), and is NaN in a column (of type float64) that has a float or a cell of a
  record without the key.
\<close>

definition frame_elevation :: "cell list \<Rightarrow> cell \<Rightarrow> cell" where
  "frame_elevation column c =
     (if list_all (\<lambda>x. x = Absent) column then Absent
      else (case c of
              Absent \<Rightarrow> Float NaN
            | PyNone \<Rightarrow> if list_all (\<lambda>x. x = PyNone) column then PyNone else Float NaN
            | Float f \<Rightarrow> Float f))"

definition climate_frame :: "(int \<times> climate_rec) list \<Rightarrow> climate_row list" where
  "climate_frame climate_data_list =
     map (\<lambda>(gid, r).
            \<lparr> temp_current = temp_current r, precip_24h = precip_24h r,
              precip_72h = precip_72h r, snow_24h = snow_24h r,
              elevation = frame_elevation (map (elevation \<circ> snd) climate_data_list) (elevation r),
              c_grid_id = gid \<rparr>)
         climate_data_list"

text \<open>
  \<^verbatim>\<open>get_climate_data\<close>, in batches of 50 units. \<open>fetch k\<close> is what
  \<^verbatim>\<open>_fetch_openmeteo_batch\<close> returned for the batch of index \<open>k\<close>: the records
  parsed from the answer of the forecast service, or its fallback records.
\<close>

definition get_climate_data :: "calculator \<Rightarrow> (nat \<Rightarrow> climate_rec list) \<Rightarrow> py_error + calculator" where
  "get_climate_data self fetch =
     (let grid_ids = map g_grid_id (grids_gdf self);
          batch_size = 50;
          bs = batches batch_size grid_ids
      in case traverse (\<lambda>(k, batch_ids). attach_ids batch_ids (fetch k)) (zip [0 ..< length bs] bs) of
           Inl e \<Rightarrow> Inl e
         | Inr per_batch \<Rightarrow> Inr (self \<lparr> climate_data := Some (climate_frame (concat per_batch)) \<rparr>))"

subsection \<open>Step 7: the merged result\<close>

text \<open>
  A row of \<^verbatim>\<open>results_gdf\<close>: the row of the base table and, for each table joined to
  it, the columns of that table. \<open>NoColumns\<close>: the table was not merged, the row has no
  such columns. \<open>Missing\<close>: the table was merged and has no row with this grid id, the
  columns hold the missing value of pandas (NaN). \<open>Joined\<close>: the row found.
\<close>

datatype 'r joined = NoColumns | Missing | Joined 'r

record flood_row =
  f_grid_id :: int
  flood_prone :: bool
  flood_description :: string

record result_row =
  res_grid :: grid_row
  res_climate :: "climate_row joined"
  res_topo :: "topo_row joined"
  res_melt :: "melt_row joined"
  res_runoff :: "runoff_row joined"
  res_risk :: "risk_row joined"
  res_proj :: "proj_row joined"
  res_flood :: "flood_row joined"

definition res_grid_id :: "result_row \<Rightarrow> int" where
  "res_grid_id row = g_grid_id (res_grid row)"

text \<open>\<^verbatim>\<open>self.results_gdf = self.grids_gdf.copy()\<close>.\<close>

definition results_of_grids :: "grid_row list \<Rightarrow> result_row list" where
  "results_of_grids grids =
     map (\<lambda>g. \<lparr> res_grid = g, res_climate = NoColumns, res_topo = NoColumns,
                 res_melt = NoColumns, res_runoff = NoColumns, res_risk = NoColumns,
                 res_proj = NoColumns, res_flood = NoColumns \<rparr>) grids"

text \<open>
  \<^verbatim>\<open>left.merge(right, on='grid_id', how='left')\<close>: the rows of the left table in
  their order; a left row gives one row per right row with its key, in the order of
  the right table, and one row with missing values when the right table has none.
\<close>

fun merge_left ::
  "('r \<Rightarrow> int) \<Rightarrow> (result_row \<Rightarrow> 'r joined \<Rightarrow> result_row) \<Rightarrow>
   result_row list \<Rightarrow> 'r list \<Rightarrow> result_row list" where
  "merge_left key put [] right = []"
| "merge_left key put (l # left) right =
     (case filter (\<lambda>r. key r = res_grid_id l) right of
        [] \<Rightarrow> [put l Missing]
      | matches \<Rightarrow> map (\<lambda>r. put l (Joined r)) matches)
     @ merge_left key put left right"

text \<open>
  The columns of a row, as \<^verbatim>\<open>row.get(column, 0)\<close> reads them: the default without
  the column, NaN for a missing value.
\<close>

definition column_or_zero :: "('r \<Rightarrow> real) \<Rightarrow> 'r joined \<Rightarrow> pyfloat" where
  "column_or_zero column j =
     (case j of NoColumns \<Rightarrow> Num 0 | Missing \<Rightarrow> NaN | Joined r \<Rightarrow> Num (column r))"

text \<open>
  The column \<^verbatim>\<open>elevation_mean\<close> of the result. When the base table has a column of
  this name and the topography table is merged, pandas renames the two columns
  (\<^verbatim>\<open>elevation_mean_x\<close>, \<^verbatim>\<open>elevation_mean_y\<close>) and the result has none of the name.
\<close>

definition result_elevation_mean :: "result_row \<Rightarrow> pyfloat" where
  "result_elevation_mean row =
     (case g_elevation_mean (res_grid row) of
        Some e \<Rightarrow> (if res_topo row = NoColumns then e else Num 0)
      | None \<Rightarrow> column_or_zero t_elevation_mean (res_topo row))"

text \<open>
  \<^verbatim>\<open>_identify_flood_zones\<close>: one flag per row of the result, merged to the result by
  grid id. Three of the texts have accented letters, written as their bytes in UTF-8.
\<close>

definition flood_of_row :: "result_row \<Rightarrow> flood_row" where
  "flood_of_row row =
     (let elev_mean = result_elevation_mean row;
          slope = column_or_zero slope_mean (res_topo row);
          runoff = column_or_zero runoff_m3s (res_runoff row);
          score = column_or_zero risk_score (res_risk row);
          (is_flood_prone, description) =
            (if py_lt elev_mean (Num 500) \<and> py_lt slope (Num 5) \<and> py_lt (Num 100) runoff
             then (True, ''Alto riesgo - Zona baja con alta escorrent'' @ [CHR 0xC3, CHR 0xAD] @ ''a'')
             else if py_lt elev_mean (Num 800) \<and> py_lt (Num 200) runoff
             then (True, ''Riesgo medio - Elevaci'' @ [CHR 0xC3, CHR 0xB3]
                           @ ''n moderada con escorrent'' @ [CHR 0xC3, CHR 0xAD]
                           @ ''a significativa'')
             else if py_lt (Num 0.5) score
             then (True, ''Atenci'' @ [CHR 0xC3, CHR 0xB3] @ ''n - Alto '' @ [CHR 0xC3, CHR 0xAD]
                           @ ''ndice de riesgo general'')
             else (False, ''Bajo riesgo''))
      in \<lparr> f_grid_id = res_grid_id row, flood_prone = is_flood_prone,
           flood_description = description \<rparr>)"

definition identify_flood_zones :: "result_row list \<Rightarrow> result_row list" where
  "identify_flood_zones results =
     (if results = [] then results
      else merge_left f_grid_id (\<lambda>l j. l \<lparr> res_flood := j \<rparr>) results (map flood_of_row results))"

text \<open>
  The merges of \<^verbatim>\<open>run_full_analysis\<close>. A table that is \<^verbatim>\<open>None\<close> or empty is not
  merged. The melt table has a column \<^verbatim>\<open>glacier_area_km2\<close> as the base table has:
  the column of the result is dropped before the merge, and the one of the melt table
  takes its place.
\<close>

definition merge_if :: "('r \<Rightarrow> int) \<Rightarrow> (result_row \<Rightarrow> 'r joined \<Rightarrow> result_row) \<Rightarrow>
   result_row list \<Rightarrow> 'r list \<Rightarrow> result_row list" where
  "merge_if key put results df = (if df = [] then results else merge_left key put results df)"

definition put_melt :: "result_row \<Rightarrow> melt_row joined \<Rightarrow> result_row" where
  "put_melt l j = l \<lparr> res_grid := (res_grid l) \<lparr> g_glacier_area_km2 := None \<rparr>, res_melt := j \<rparr>"

definition merge_results ::
  "calculator \<Rightarrow> melt_row list option \<Rightarrow> runoff_row list \<Rightarrow> risk_row list \<Rightarrow> result_row list" where
  "merge_results self melt_df runoff_df risk_df =
     (let r0 = results_of_grids (grids_gdf self);
          r1 = merge_if c_grid_id (\<lambda>l j. l \<lparr> res_climate := j \<rparr>) r0
                 (case climate_data self of None \<Rightarrow> [] | Some df \<Rightarrow> df);
          r2 = merge_if t_grid_id (\<lambda>l j. l \<lparr> res_topo := j \<rparr>) r1
                 (case topo_data self of None \<Rightarrow> [] | Some df \<Rightarrow> df);
          r3 = merge_if m_grid_id put_melt r2 (case melt_df of None \<Rightarrow> [] | Some df \<Rightarrow> df);
          r4 = merge_if r_grid_id (\<lambda>l j. l \<lparr> res_runoff := j \<rparr>) r3 runoff_df
      in merge_if k_grid_id (\<lambda>l j. l \<lparr> res_risk := j \<rparr>) r4 risk_df)"

text \<open>
  \<^verbatim>\<open>run_full_analysis\<close> after \<^verbatim>\<open>load_base_data\<close> has filled the base table and the
  glacier table: the two fetches, the model chain, the merges, the projection and its
  merge, the flood flags. An exception of a step leaves the function.
\<close>

definition run_full_analysis ::
  "calculator \<Rightarrow> real list \<Rightarrow> (nat \<Rightarrow> climate_rec list) \<Rightarrow> py_error + result_row list" where
  "run_full_analysis self0 all_elevations fetch =
     (case get_climate_data (get_topography_for_grids self0 all_elevations) fetch of
        Inl e \<Rightarrow> Inl e
      | Inr self \<Rightarrow>
     (case calculate_melt self of
        Inl e \<Rightarrow> Inl e
      | Inr melt_df \<Rightarrow>
     (case calculate_runoff self melt_df of
        Inl e \<Rightarrow> Inl e
      | Inr runoff_df \<Rightarrow>
     (case calculate_flood_risk self melt_df runoff_df of
        Inl e \<Rightarrow> Inl e
      | Inr risk_df \<Rightarrow>
     (case calculate_projected_risk_3d self melt_df runoff_df of
        Inl e \<Rightarrow> Inl e
      | Inr proj_df \<Rightarrow>
          Inr (identify_flood_zones
                 (merge_if p_grid_id (\<lambda>l j. l \<lparr> res_proj := j \<rparr>)
                    (merge_results self melt_df runoff_df risk_df) proj_df)))))))"

text \<open>
  The columns of the result that the claims name, as cells: \<open>None\<close> without the column,
  NaN for the missing value.
\<close>

definition result_column :: "('r \<Rightarrow> real) \<Rightarrow> 'r joined \<Rightarrow> pyfloat option" where
  "result_column column j =
     (case j of NoColumns \<Rightarrow> None | Missing \<Rightarrow> Some NaN | Joined r \<Rightarrow> Some (Num (column r)))"

subsection \<open>The critical banner of the dashboard\<close>

text \<open>
  \<^verbatim>\<open>
  critical_count = len(results_gdf[results_gdf.get('risk_class', 'bajo') == 'critico'])
  \<close>
  for a result that has the column \<^verbatim>\<open>risk_class\<close>; a missing value is not equal to
  the string. The banner is shown when the count is positive.
\<close>

definition critical_count :: "result_row list \<Rightarrow> nat" where
  "critical_count results_gdf =
     length (filter (\<lambda>row. case res_risk row of
                              Joined k \<Rightarrow> risk_class k = ''critico''
                            | _ \<Rightarrow> False) results_gdf)"

definition critical_banner :: "result_row list \<Rightarrow> bool" where
  "critical_banner results_gdf = (critical_count results_gdf > 0)"

subsection \<open>The forecast service: parsing a payload\<close>

text \<open>
  The JSON document of one location, as far as \<^verbatim>\<open>_process_meteo_json\<close> tells its
  shapes apart. The value under \<^verbatim>\<open>hourly\<close> or \<^verbatim>\<open>daily\<close> is absent, or a value that
  is not an object (with its truth value in Python: \<^verbatim>\<open>null\<close>, 0, an empty string or
  list are false), or an object, given by its items; a series in it is a list of
  numbers. A document that is not an object at all is \<open>NotAnObject\<close>.
\<close>

datatype block = NoBlock | NotDict bool | Block "(string \<times> real list) list"

datatype payload = NotAnObject | Payload block block cell

text \<open>The values of a climate record: a float, \<^verbatim>\<open>None\<close> or a list of floats.\<close>

datatype pyval = PNum pyfloat | PNone | PList "real list"

type_synonym climate_dict = "(string \<times> pyval) list"

text \<open>
  \<^verbatim>\<open>
  def _empty_climate_dict():
      return {
          'temp_current': 0, 'temp_avg_today': 0, 'temp_max_today': 0,
          'precip_24h': 0, 'precip_72h': 0, 'rain_24h': 0,
          'snow_24h': 0, 'snow_72h': 0, 'radiation_current': 0,
          'wind_speed_current': 0, 'rain_intensity_max': 0,
          'temp_series': [], 'precip_series': []
      }
  \<close>
\<close>

definition empty_climate_dict :: climate_dict where
  "empty_climate_dict =
     [(''temp_current'', PNum (Num 0)), (''temp_avg_today'', PNum (Num 0)),
      (''temp_max_today'', PNum (Num 0)),
      (''precip_24h'', PNum (Num 0)), (''precip_72h'', PNum (Num 0)), (''rain_24h'', PNum (Num 0)),
      (''snow_24h'', PNum (Num 0)), (''snow_72h'', PNum (Num 0)),
      (''radiation_current'', PNum (Num 0)),
      (''wind_speed_current'', PNum (Num 0)), (''rain_intensity_max'', PNum (Num 0)),
      (''temp_series'', PList []), (''precip_series'', PList [])]"

text \<open>\<^verbatim>\<open>block.get(key, [])\<close> on the items of an object.\<close>

definition series :: "(string \<times> real list) list \<Rightarrow> string \<Rightarrow> real list" where
  "series items key = (case map_of items key of None \<Rightarrow> [] | Some xs \<Rightarrow> xs)"

text \<open>\<^verbatim>\<open>f(xs) if xs else 0\<close> for the reductions of numpy on a list of numbers.\<close>

definition first_or_0 :: "real list \<Rightarrow> pyval" where
  "first_or_0 xs = (case xs of [] \<Rightarrow> PNum (Num 0) | x # _ \<Rightarrow> PNum (Num x))"

definition mean_or_0 :: "real list \<Rightarrow> pyval" where
  "mean_or_0 xs = (if xs = [] then PNum (Num 0) else PNum (Num (sum_list xs / real (length xs))))"

definition max_or_0 :: "real list \<Rightarrow> pyval" where
  "max_or_0 xs = (if xs = [] then PNum (Num 0) else PNum (Num (Max (set xs))))"

definition sum_first_or_0 :: "nat \<Rightarrow> real list \<Rightarrow> pyval" where
  "sum_first_or_0 n xs = (if xs = [] then PNum (Num 0) else PNum (Num (sum_list (take n xs))))"

text \<open>\<^verbatim>\<open>data.get('elevation', 0)\<close>.\<close>

definition elevation_value :: "cell \<Rightarrow> pyval" where
  "elevation_value c = (case c of Absent \<Rightarrow> PNum (Num 0) | PyNone \<Rightarrow> PNone | Float f \<Rightarrow> PNum f)"

text \<open>
  \<^verbatim>\<open>_process_meteo_json(data)\<close>. The whole body is in a \<^verbatim>\<open>try\<close> whose handler
  returns the empty record: \<^verbatim>\<open>data.get\<close> raises on a document that is not an
  object, \<^verbatim>\<open>hourly.get\<close> and \<^verbatim>\<open>daily.get\<close> raise on a value that is not an object.
  A false \<^verbatim>\<open>hourly\<close> (absent, hence \<^verbatim>\<open>{}\<close>, or a false value, or an object
  without items) returns the empty record before \<^verbatim>\<open>daily\<close> is read.
\<close>

definition process_meteo_json :: "payload \<Rightarrow> climate_dict" where
  "process_meteo_json data =
     (case data of
        NotAnObject \<Rightarrow> empty_climate_dict
      | Payload hourly daily elev \<Rightarrow>
          (case hourly of
             NoBlock \<Rightarrow> empty_climate_dict
           | NotDict truth \<Rightarrow> empty_climate_dict
           | Block h \<Rightarrow>
               if h = [] then empty_climate_dict
               else (case daily of
                       NotDict truth \<Rightarrow> empty_climate_dict
                     | _ \<Rightarrow>
                        (let d = (case daily of Block items \<Rightarrow> items | _ \<Rightarrow> []);
                             temps_hourly = series h ''temperature_2m'';
                             temps_daily = series d ''temperature_2m_max'';
                             precip_daily = series d ''precipitation_sum'';
                             snow_daily = series d ''snowfall_sum'';
                             rain_daily = series d ''rain_sum'';
                             radiation_hourly = series h ''shortwave_radiation'';
                             wind_hourly = series h ''wind_speed_10m''
                         in [(''temp_current'', first_or_0 temps_hourly),
                             (''temp_avg_today'', mean_or_0 temps_daily),
                             (''temp_max_today'', max_or_0 temps_daily),
                             (''precip_24h'', sum_first_or_0 1 precip_daily),
                             (''precip_72h'', sum_first_or_0 3 precip_daily),
                             (''rain_24h'', sum_first_or_0 1 rain_daily),
                             (''snow_24h'', sum_first_or_0 1 snow_daily),
                             (''snow_72h'', sum_first_or_0 3 snow_daily),
                             (''radiation_current'', first_or_0 radiation_hourly),
                             (''wind_speed_current'', first_or_0 wind_hourly),
                             (''rain_intensity_max'', PNum (Num 0)),
                             (''elevation'', elevation_value elev),
                             (''temp_series'', PList (take 72 temps_hourly)),
                             (''precip_series'', PList (take 72 (series h ''precipitation'')))]))))"

text \<open>
  What the request of \<^verbatim>\<open>_fetch_openmeteo_batch\<close> came to: an exception (no answer in
  30 seconds, a status that is not 200, a body that is not JSON), or the JSON body, a
  list of documents or one document.
\<close>

datatype response = RequestFailed | BodyList "payload list" | BodyOne payload

text \<open>
  \<^verbatim>\<open>
  try:
      ...
      data = response.json()
      if not isinstance(data, list):
          data = [data]
      results = []
      for d in data:
          results.append(EVAQUACalculator._process_meteo_json(d))
      return results
  except Exception as e:
      return [EVAQUACalculator._process_meteo_json({}) for _ in lats]
  \<close>
\<close>

definition fetch_openmeteo_batch :: "real list \<Rightarrow> real list \<Rightarrow> response \<Rightarrow> climate_dict list" where
  "fetch_openmeteo_batch lats lons resp =
     (case resp of
        RequestFailed \<Rightarrow> map (\<lambda>_. process_meteo_json (Payload NoBlock NoBlock Absent)) lats
      | BodyList data \<Rightarrow> map process_meteo_json data
      | BodyOne d \<Rightarrow> map process_meteo_json [d])"

text \<open>The keys of the climate record that a parsed document gives: the schema.\<close>

definition climate_schema :: "string list" where
  "climate_schema =
     [''temp_current'', ''temp_avg_today'', ''temp_max_today'', ''precip_24h'', ''precip_72h'',
      ''rain_24h'', ''snow_24h'', ''snow_72h'', ''radiation_current'', ''wind_speed_current'',
      ''rain_intensity_max'', ''elevation'', ''temp_series'', ''precip_series'']"

subsection \<open>The HRU generator\<close>

text \<open>
  Geometry comes from shapely and geopandas. A geometry is modelled as a finite union of
  closed rectangles with sides along the axes, each given as (minx, miny, maxx, maxy):
  a polygon or a multi-polygon of this kind, for which the bounds and the intersection
  with a band are computed exactly. A rectangle without height or width is the line or
  the point in which two geometries touch, which shapely does not count as empty.
\<close>

type_synonym box = "real \<times> real \<times> real \<times> real"

type_synonym geom = "box list"

definition box_inter :: "box \<Rightarrow> box \<Rightarrow> box option" where
  "box_inter a b =
     (case (a, b) of
        ((ax1, ay1, ax2, ay2), (bx1, by1, bx2, by2)) \<Rightarrow>
          (let x1 = max ax1 bx1; y1 = max ay1 by1; x2 = min ax2 bx2; y2 = min ay2 by2
           in if x1 \<le> x2 \<and> y1 \<le> y2 then Some (x1, y1, x2, y2) else None))"

text \<open>\<^verbatim>\<open>geometry.intersection(band_box)\<close>; the empty list is the empty geometry.\<close>

definition intersection :: "geom \<Rightarrow> box \<Rightarrow> geom" where
  "intersection g band = List.map_filter (\<lambda>b. box_inter b band) g"

text \<open>\<^verbatim>\<open>geometry.bounds\<close> of a geometry that is not empty.\<close>

definition bounds :: "geom \<Rightarrow> box" where
  "bounds g =
     (Min (set (map (\<lambda>(x1, y1, x2, y2). x1) g)), Min (set (map (\<lambda>(x1, y1, x2, y2). y1) g)),
      Max (set (map (\<lambda>(x1, y1, x2, y2). x2) g)), Max (set (map (\<lambda>(x1, y1, x2, y2). y2) g)))"

text \<open>
  A row of the table of sub-basins. \<open>sub_area_km2\<close> is the area of the geometry
  projected to EPSG:32719, in square kilometres, and \<open>glaciers_in\<close> holds the projected
  areas, in square kilometres, of the glaciers that intersect the geometry
  (\<^verbatim>\<open>glaciers_gdf[glaciers_gdf.intersects(sub.geometry)]\<close>): both as geopandas
  computes them.
\<close>

record subcuenca =
  COD_SUBC :: string
  NOM_SUBC :: string
  COD_CUEN :: string
  geometry :: geom
  sub_area_km2 :: real
  glaciers_in :: "real list"

record glacier_stats =
  count :: nat
  stats_area_km2 :: real
  density :: real

text \<open>
  The reason of a division is an f-string; it is kept as its template with the values
  formatted into it.
\<close>

datatype reason =
    Pequena real
  | Mediana_con_glaciares nat
  | Mediana_sin_glaciares
  | Grande_alta_densidad_glaciar
  | Grande_con_glaciares
  | Grande_sin_glaciares

record hru =
  hru_id :: int
  subcuenca_cod :: string
  subcuenca_nom :: string
  cuenca_cod :: string
  elevation_band :: string
  n_divisions :: nat
  hru_reason :: reason
  hru_geometry :: geom

text \<open>
  \<^verbatim>\<open>_calculate_glacier_stats\<close>: a dict from the code of a sub-basin to its
  statistics; a later row with the same code replaces the entry of an earlier one.
\<close>

definition stats_of :: "subcuenca \<Rightarrow> glacier_stats" where
  "stats_of sub =
     (let g_area_km2 = (if length (glaciers_in sub) > 0 then sum_list (glaciers_in sub) else 0)
      in \<lparr> count = length (glaciers_in sub),
           stats_area_km2 = g_area_km2,
           density = (if sub_area_km2 sub > 0 then g_area_km2 / sub_area_km2 sub * 100 else 0) \<rparr>)"

definition stats_update :: "subcuenca \<Rightarrow> (string \<rightharpoonup> glacier_stats) \<Rightarrow> (string \<rightharpoonup> glacier_stats)" where
  "stats_update sub stats = stats(COD_SUBC sub \<mapsto> stats_of sub)"

definition calculate_glacier_stats :: "subcuenca list \<Rightarrow> (string \<rightharpoonup> glacier_stats)" where
  "calculate_glacier_stats subcuencas = fold stats_update subcuencas Map.empty"

text \<open>
  \<^verbatim>\<open>band_names = {2: ['Baja', 'Alta'], 3: ['Baja', 'Media', 'Alta']}\<close> and
  \<^verbatim>\<open>band_names[n_div][i]\<close>: KeyError for a number of divisions that the dict
  does not have, IndexError for an index beyond the list.
\<close>

definition band_names :: "(nat \<times> string list) list" where
  "band_names = [(2, [''Baja'', ''Alta'']), (3, [''Baja'', ''Media'', ''Alta''])]"

definition band_name :: "nat \<Rightarrow> nat \<Rightarrow> py_error + string" where
  "band_name n_div i =
     (case map_of band_names n_div of
        None \<Rightarrow> Inl KeyError
      | Some names \<Rightarrow> if i < length names then Inr (names ! i) else Inl IndexError)"

text \<open>
  \<^verbatim>\<open>_divide_subcuenca(sub, n_div, start_id, reason)\<close>: one unit with the whole
  geometry for one division (the name of its band starts with an accented capital U,
  the bytes C3 9A of UTF-8); otherwise the bands of equal height between the lowest and
  the highest y of the bounds, and one unit for each band that the geometry meets
  (\<^verbatim>\<open>if not geom.is_empty\<close>). The name of the band is read when the unit is made.
  An empty geometry meets no band, whatever its bounds.
\<close>

definition band_box :: "geom \<Rightarrow> nat \<Rightarrow> nat \<Rightarrow> box" where
  "band_box g n_div i =
     (case bounds g of
        (minx, miny, maxx, maxy) \<Rightarrow>
          (let height = maxy - miny;
               y1 = miny + (height / real n_div) * real i;
               y2 = miny + (height / real n_div) * real (i + 1)
           in (minx, y1, maxx, y2)))"

definition band_unit :: "subcuenca \<Rightarrow> nat \<Rightarrow> int \<Rightarrow> reason \<Rightarrow> nat \<Rightarrow> py_error + hru option" where
  "band_unit sub n_div start_id why i =
     (let geom = intersection (geometry sub) (band_box (geometry sub) n_div i)
      in if geom \<noteq> [] then
           (case band_name n_div i of
              Inl e \<Rightarrow> Inl e
            | Inr name \<Rightarrow>
                Inr (Some \<lparr> hru_id = start_id + int i, subcuenca_cod = COD_SUBC sub,
                             subcuenca_nom = NOM_SUBC sub, cuenca_cod = COD_CUEN sub,
                             elevation_band = name, n_divisions = n_div,
                             hru_reason = why, hru_geometry = geom \<rparr>))
         else Inr None)"

definition divide_subcuenca :: "subcuenca \<Rightarrow> nat \<Rightarrow> int \<Rightarrow> reason \<Rightarrow> py_error + hru list" where
  "divide_subcuenca sub n_div start_id why =
     (if n_div = 1 then
        Inr [\<lparr> hru_id = start_id, subcuenca_cod = COD_SUBC sub, subcuenca_nom = NOM_SUBC sub,
                cuenca_cod = COD_CUEN sub, elevation_band = [CHR 0xC3, CHR 0x9A] @ ''nica'',
                n_divisions = 1, hru_reason = why, hru_geometry = geometry sub \<rparr>]
      else traverse_skip (band_unit sub n_div start_id why) [0 ..< n_div])"

text \<open>The decision of \<^verbatim>\<open>generate_hrus\<close> for one sub-basin.\<close>

definition decide_division :: "real \<Rightarrow> real \<Rightarrow> real \<Rightarrow> real \<Rightarrow> glacier_stats \<Rightarrow> nat \<times> reason" where
  "decide_division small_km2 medium_km2 glacier_density_threshold area_km2 stats =
     (if area_km2 < small_km2 then (1, Pequena area_km2)
      else if area_km2 < medium_km2 then
        (if count stats > 0 then (2, Mediana_con_glaciares (count stats))
         else (1, Mediana_sin_glaciares))
      else
        (if density stats > glacier_density_threshold then (3, Grande_alta_densidad_glaciar)
         else if count stats > 0 then (2, Grande_con_glaciares)
         else (2, Grande_sin_glaciares)))"

text \<open>
  The loop of \<^verbatim>\<open>generate_hrus\<close>; \<open>next_id\<close> is its counter \<^verbatim>\<open>hru_id\<close>.
  \<^verbatim>\<open>glacier_stats.get(code, {'count': 0, 'area_km2': 0, 'density': 0})\<close> reads the
  statistics.
\<close>

fun generate_loop ::
  "real \<Rightarrow> real \<Rightarrow> real \<Rightarrow> (string \<rightharpoonup> glacier_stats) \<Rightarrow> subcuenca list \<Rightarrow> int \<Rightarrow>
   py_error + hru list" where
  "generate_loop small medium threshold stats_dict [] next_id = Inr []"
| "generate_loop small medium threshold stats_dict (sub # subs) next_id =
     (let area_km2 = sub_area_km2 sub;
          stats = (case stats_dict (COD_SUBC sub) of
                     Some s \<Rightarrow> s
                   | None \<Rightarrow> \<lparr> count = 0, stats_area_km2 = 0, density = 0 \<rparr>);
          (n_div, why) = decide_division small medium threshold area_km2 stats
      in case divide_subcuenca sub n_div next_id why of
           Inl e \<Rightarrow> Inl e
         | Inr units \<Rightarrow>
             (case generate_loop small medium threshold stats_dict subs (next_id + int n_div) of
                Inl e \<Rightarrow> Inl e
              | Inr hrus \<Rightarrow> Inr (units @ hrus)))"

text \<open>
  The signature of \<^verbatim>\<open>generate_hrus\<close> is
  \<^verbatim>\<open>(_subcuencas_gdf, _glaciers_gdf, small_km2=50, medium_km2=200, glacier_density_threshold=5)\<close>.
  A call is given by the table of sub-basins (with the glaciers that meet each of them)
  and by the thresholds that it passes, each with the name of its parameter, in the
  order of the call; a threshold that the call does not pass has its default. The number
  passed is an int or a float. A call that passes a name twice, or a name that is no
  threshold, raises TypeError.
\<close>

datatype pynum = PyInt int | PyFloat real

fun num_value :: "pynum \<Rightarrow> real" where
  "num_value (PyInt i) = real_of_int i"
| "num_value (PyFloat x) = x"

type_synonym passed_args = "(string \<times> pynum) list"

definition arg_value :: "passed_args \<Rightarrow> string \<Rightarrow> real \<Rightarrow> real" where
  "arg_value passed name default_value =
     (case map_of passed name of Some v \<Rightarrow> num_value v | None \<Rightarrow> default_value)"

definition well_passed :: "passed_args \<Rightarrow> bool" where
  "well_passed passed =
     (distinct (map fst passed) \<and>
      list_all (\<lambda>(name, v). name \<in> set [''small_km2'', ''medium_km2'', ''glacier_density_threshold''])
        passed)"

text \<open>
  The body of \<^verbatim>\<open>generate_hrus\<close>. Its last step is
  \<^verbatim>\<open>gpd.GeoDataFrame(hrus, crs="EPSG:4326")\<close>: the frame of an empty list has no
  geometry column, and geopandas raises ValueError when it is given a coordinate system
  for a frame without one.
\<close>

definition generate_hrus_body :: "subcuenca list \<Rightarrow> passed_args \<Rightarrow> py_error + hru list" where
  "generate_hrus_body subcuencas passed =
     (if \<not> well_passed passed then Inl TypeError
      else
        (let small_km2 = arg_value passed ''small_km2'' 50;
             medium_km2 = arg_value passed ''medium_km2'' 200;
             glacier_density_threshold = arg_value passed ''glacier_density_threshold'' 5
         in case generate_loop small_km2 medium_km2 glacier_density_threshold
                   (calculate_glacier_stats subcuencas) subcuencas 0 of
              Inl e \<Rightarrow> Inl e
            | Inr hrus \<Rightarrow> if hrus = [] then Inl ValueError else Inr hrus))"

text \<open>
  \<^verbatim>\<open>generate_hrus\<close> is decorated with \<^verbatim>\<open>@st.cache_data(ttl=3600)\<close>: streamlit keeps
  the values that the function returned in a cache of the process. The key of a call is
  made of the arguments that the call passes, each with the name of its parameter and
  the type of its value, in the order of the call, but for the parameters whose name
  starts with an underscore: the two tables are no part of the key, and neither is a
  threshold left to its default. A call that finds a value stored for its key less than
  3600 seconds ago returns that value and does not run the body. Another call runs the
  body and stores the value that it returns, with the time; a call that raises stores
  nothing. \<open>now\<close> is the time of the call, in seconds; the time that the body takes is
  not modelled.
\<close>

type_synonym hru_cache = "passed_args \<rightharpoonup> real \<times> hru list"

definition cache_lookup :: "hru_cache \<Rightarrow> real \<Rightarrow> passed_args \<Rightarrow> hru list option" where
  "cache_lookup cache now cache_key =
     (case cache cache_key of
        None \<Rightarrow> None
      | Some (stored_at, hrus) \<Rightarrow> if now < stored_at + 3600 then Some hrus else None)"

definition generate_hrus ::
  "hru_cache \<Rightarrow> real \<Rightarrow> subcuenca list \<Rightarrow> passed_args \<Rightarrow> (py_error + hru list) \<times> hru_cache" where
  "generate_hrus cache now subcuencas passed =
     (case cache_lookup cache now passed of
        Some hrus \<Rightarrow> (Inr hrus, cache)
      | None \<Rightarrow>
          (case generate_hrus_body subcuencas passed of
             Inl e \<Rightarrow> (Inl e, cache)
           | Inr hrus \<Rightarrow> (Inr hrus, cache(passed \<mapsto> (now, hrus)))))"

section \<open>The claims in the words of the specification\<close>

text \<open>
  The formulas of the specification, over plain numbers, and the values they are
  applied to: the climate row of a unit (the first row of \<^verbatim>\<open>climate_data\<close> with its
  grid id), its melt rate and its runoff (the first row of the table given with its
  grid id, 0 without one), its elevations and its slope.
\<close>

definition unit_climate :: "calculator \<Rightarrow> int \<Rightarrow> climate_row option" where
  "unit_climate self gid =
     (case climate_data self of
        None \<Rightarrow> None
      | Some rows \<Rightarrow>
          (case filter (\<lambda>c. c_grid_id c = gid) rows of [] \<Rightarrow> None | c # _ \<Rightarrow> Some c))"

definition has_climate :: "calculator \<Rightarrow> grid_row \<Rightarrow> bool" where
  "has_climate self grid = (unit_climate self (g_grid_id grid) \<noteq> None)"

definition unit_melt_rate :: "melt_row list option \<Rightarrow> int \<Rightarrow> real" where
  "unit_melt_rate melt_df gid =
     (case melt_df of
        None \<Rightarrow> 0
      | Some rows \<Rightarrow> first_or_zero melt_rate_mm_day (filter (\<lambda>m. m_grid_id m = gid) rows))"

definition unit_runoff :: "runoff_row list \<Rightarrow> int \<Rightarrow> real" where
  "unit_runoff runoff_df gid =
     first_or_zero runoff_m3s (filter (\<lambda>r. r_grid_id r = gid) runoff_df)"

text \<open>
  The elevation that the weather model reports for a climate row, when it is known: a
  row of a table without the column reads the default 0 of the climate record, and
  neither \<^verbatim>\<open>None\<close> nor the missing value NaN is an elevation.
\<close>

definition forecast_model_elevation :: "climate_row \<Rightarrow> real option" where
  "forecast_model_elevation c =
     (case elevation c of
        Absent \<Rightarrow> Some 0
      | PyNone \<Rightarrow> None
      | Float NaN \<Rightarrow> None
      | Float (Num m) \<Rightarrow> Some m)"

text \<open>
  The mean elevation of a unit, when it is known: the \<^verbatim>\<open>elevation_mean\<close> of the unit in
  the base table when that table has the column, and otherwise the \<^verbatim>\<open>elevation_mean\<close>
  of the topography record with its grid id.
\<close>

definition hru_mean_elevation :: "calculator \<Rightarrow> int \<Rightarrow> real option" where
  "hru_mean_elevation self gid =
     (if list_ex (\<lambda>g. g_elevation_mean g \<noteq> None) (grids_gdf self)
      then (case find (\<lambda>g. g_grid_id g = gid) (grids_gdf self) of
              None \<Rightarrow> None
            | Some g \<Rightarrow> (case g_elevation_mean g of Some (Num e) \<Rightarrow> Some e | _ \<Rightarrow> None))
      else (case topo_data self of
              None \<Rightarrow> None
            | Some topo \<Rightarrow> map_option t_elevation_mean (find (\<lambda>t. t_grid_id t = gid) topo)))"

text \<open>
  The adjusted temperature: the forecast temperature plus (HRU elevation - model
  elevation) times -0.0065 when the model elevation is known and the HRU mean elevation
  is positive, the forecast temperature otherwise.
\<close>

definition spec_adjusted_temp :: "real \<Rightarrow> real option \<Rightarrow> real option \<Rightarrow> real" where
  "spec_adjusted_temp forecast_temp model_elev hru_elev =
     (case (model_elev, hru_elev) of
        (Some me, Some he) \<Rightarrow>
          if he > 0 then forecast_temp + (he - me) * (- 0.0065) else forecast_temp
      | _ \<Rightarrow> forecast_temp)"

text \<open>
  The melt rate: 8.0 times max(0, adjusted temperature - 0.0), and 4.0 times it when
  snow fell in the last 24 hours.
\<close>

definition spec_melt_rate :: "real \<Rightarrow> real \<Rightarrow> real" where
  "spec_melt_rate adjusted_temp snow =
     (if snow > 0 then 4.0 else 8.0) * max 0 (adjusted_temp - 0.0)"

text \<open>
  The mean slope of a unit: the slope of the topography record with its grid id, \<open>None\<close>
  when there is no topography record with its grid id.
\<close>

definition unit_slope :: "calculator \<Rightarrow> int \<Rightarrow> real option" where
  "unit_slope self gid =
     (case topo_data self of
        None \<Rightarrow> None
      | Some topo \<Rightarrow> map_option slope_mean (find (\<lambda>t. t_grid_id t = gid) topo))"

text \<open>The runoff coefficient from the mean slope, \<open>None\<close> without a topography record.\<close>

definition spec_runoff_coeff :: "real option \<Rightarrow> real" where
  "spec_runoff_coeff slope =
     (case slope of
        None \<Rightarrow> 0.50
      | Some s \<Rightarrow> if s < 5 then 0.20 else if s < 10 then 0.35 else if s < 20 then 0.50 else 0.70)"

text \<open>Runoff = C * I * A * 0.278.\<close>

definition spec_runoff :: "real option \<Rightarrow> real \<Rightarrow> real \<Rightarrow> real" where
  "spec_runoff slope precip area =
     spec_runoff_coeff slope * (if precip \<le> 0 then 0 else precip / 24)
       * (if area \<le> 0 then 1.0 else area) * 0.278"

definition spec_risk_score :: "real \<Rightarrow> real \<Rightarrow> real \<Rightarrow> real" where
  "spec_risk_score melt runoff precip =
     (if melt < 0.1
      then 0.05 * min 1 (melt / 50) + 0.55 * min 1 (runoff / 1000) + 0.40 * min 1 (precip / 300)
      else 0.40 * min 1 (melt / 50) + 0.40 * min 1 (runoff / 1000) + 0.20 * min 1 (precip / 300))"

definition spec_risk_score_3d :: "real \<Rightarrow> real \<Rightarrow> real \<Rightarrow> real" where
  "spec_risk_score_3d melt_3d runoff precip_3d =
     0.35 * min 1 (melt_3d / 150) + 0.35 * min 1 (runoff / 1200) + 0.30 * min 1 (precip_3d / 300)"

text \<open>
  A calculator with one unit, of grid id 0, for the test vectors: its climate record
  (temperature, precipitation of 24 and 72 hours, snow, model elevation), its area and
  the topography table.
\<close>

definition example_calc ::
  "real \<Rightarrow> real \<Rightarrow> real \<Rightarrow> real \<Rightarrow> cell \<Rightarrow> real \<Rightarrow> topo_row list option \<Rightarrow> calculator" where
  "example_calc temp p24 p72 snow elev area topo =
     \<lparr> grids_gdf = [\<lparr> g_grid_id = 0, g_area_km2 = Some area, g_geom_area_km2 = area,
                      g_glacier_area_km2 = Some 2, g_elevation_mean = None \<rparr>],
       glaciers_gdf = [],
       climate_data = Some [\<lparr> temp_current = temp, precip_24h = p24, precip_72h = p72,
                               snow_24h = snow, elevation = elev, c_grid_id = 0 \<rparr>],
       topo_data = topo \<rparr>"

definition example_melt_df :: "real \<Rightarrow> melt_row list option" where
  "example_melt_df rate =
     Some [\<lparr> m_grid_id = 0, melt_rate_mm_day = rate, temp_for_melt = Num (rate / 8),
             m_glacier_area_km2 = 2, snow_recent = False \<rparr>]"

definition example_runoff_df :: "real \<Rightarrow> runoff_row list" where
  "example_runoff_df q =
     [\<lparr> r_grid_id = 0, runoff_m3s = q, runoff_coeff = 0.5, slope_percent = 0,
        precip_intensity_mm_h = 0 \<rparr>]"

text \<open>
  A row of the result whose risk columns come from the risk row of a unit of the given
  score, as \<^verbatim>\<open>calculate_flood_risk\<close> classifies it.
\<close>

definition risk_row_of_score :: "real \<Rightarrow> risk_row" where
  "risk_row_of_score score =
     \<lparr> k_grid_id = 0, risk_score = score, risk_class = classify_risk (Num score),
       melt_component = 0, runoff_component = 0, precip_component = 0 \<rparr>"

definition result_with_risk :: "risk_row \<Rightarrow> result_row" where
  "result_with_risk k =
     \<lparr> res_grid = \<lparr> g_grid_id = k_grid_id k, g_area_km2 = Some 10, g_geom_area_km2 = 10,
                    g_glacier_area_km2 = Some 2, g_elevation_mean = None \<rparr>,
       res_climate = Missing, res_topo = Missing, res_melt = Missing, res_runoff = Missing,
       res_risk = Joined k, res_proj = Missing, res_flood = Missing \<rparr>"

text \<open>
  The cell that a left join gives a row for a table whose keys are distinct: the row of
  the table with the grid id, the missing value without one.
\<close>

definition join_lookup :: "('r \<Rightarrow> int) \<Rightarrow> 'r list \<Rightarrow> int \<Rightarrow> 'r joined" where
  "join_lookup key right gid =
     (case filter (\<lambda>r. key r = gid) right of [] \<Rightarrow> Missing | r # _ \<Rightarrow> Joined r)"

text \<open>
  A base table of two units, of grid ids 0 and 1, and a forecast service that answers
  the batch of the two locations with one record: the second unit gets no climate row.
\<close>

definition example_base :: calculator where
  "example_base =
     \<lparr> grids_gdf = [\<lparr> g_grid_id = 0, g_area_km2 = Some 10, g_geom_area_km2 = 10,
                      g_glacier_area_km2 = Some 2, g_elevation_mean = None \<rparr>,
                    \<lparr> g_grid_id = 1, g_area_km2 = Some 20, g_geom_area_km2 = 20,
                      g_glacier_area_km2 = Some 0, g_elevation_mean = None \<rparr>],
       glaciers_gdf = [],
       climate_data = None,
       topo_data = None \<rparr>"

definition example_fetch :: "nat \<Rightarrow> climate_rec list" where
  "example_fetch k =
     [\<lparr> temp_current = 6, precip_24h = 48, precip_72h = 150, snow_24h = 0,
        elevation = Float (Num 0) \<rparr>]"

text \<open>
  A base table of three units, of grid ids 0, 1 and 2, with topography records of mean
  elevation 2500 m, 3000 m and 1500 m, and a forecast service that answers their batch
  with three records: one of 4 degrees and model elevation 500 m, one of 6 degrees whose
  document has \<^verbatim>\<open>"elevation": null\<close>, and the fallback record of a document without
  an hourly block.
\<close>

definition example_units :: calculator where
  "example_units =
     \<lparr> grids_gdf = map (\<lambda>i. \<lparr> g_grid_id = i, g_area_km2 = Some 10, g_geom_area_km2 = 10,
                                g_glacier_area_km2 = Some 2, g_elevation_mean = None \<rparr>)
                      [0, 1, 2],
       glaciers_gdf = [],
       climate_data = None,
       topo_data = Some [\<lparr> t_grid_id = 2, t_elevation_mean = 1500, slope_mean = 0 \<rparr>,
                         \<lparr> t_grid_id = 1, t_elevation_mean = 3000, slope_mean = 0 \<rparr>,
                         \<lparr> t_grid_id = 0, t_elevation_mean = 2500, slope_mean = 0 \<rparr>] \<rparr>"

definition example_answer :: "nat \<Rightarrow> climate_rec list" where
  "example_answer k =
     [\<lparr> temp_current = 4, precip_24h = 0, precip_72h = 0, snow_24h = 0,
        elevation = Float (Num 500) \<rparr>,
      \<lparr> temp_current = 6, precip_24h = 0, precip_72h = 0, snow_24h = 0,
        elevation = PyNone \<rparr>,
      \<lparr> temp_current = 0, precip_24h = 0, precip_72h = 0, snow_24h = 0,
        elevation = Absent \<rparr>]"

text \<open>The grid id of a row of the result and its three columns that the claim names.\<close>

definition named_columns :: "result_row \<Rightarrow> int \<times> pyfloat option \<times> pyfloat option \<times> pyfloat option" where
  "named_columns row =
     (res_grid_id row,
      result_column risk_score (res_risk row),
      result_column melt_rate_mm_day (res_melt row),
      result_column runoff_m3s (res_runoff row))"

subsection \<open>The division table\<close>

text \<open>The units that a sub-basin yields: the rows of the result with its code.\<close>

definition units_of :: "hru list \<Rightarrow> subcuenca \<Rightarrow> hru list" where
  "units_of hrus sub = filter (\<lambda>h. subcuenca_cod h = COD_SUBC sub) hrus"

text \<open>
  The glacier density of a sub-basin, in percent: the area of the glaciers that
  intersect it by the area of the sub-basin, times 100.
\<close>

definition glacier_density :: "subcuenca \<Rightarrow> real" where
  "glacier_density sub = sum_list (glaciers_in sub) / sub_area_km2 sub * 100"

text \<open>The table of divisions of the specification.\<close>

definition spec_divisions :: "real \<Rightarrow> nat \<Rightarrow> real \<Rightarrow> nat" where
  "spec_divisions area glaciers dens =
     (if area < 50 then 1
      else if area < 200 then (if glaciers \<ge> 1 then 2 else 1)
      else (if dens > 5 then 3 else 2))"

text \<open>
  A sub-basin for the test vectors: its code, its geometry, its area and the areas of
  the glaciers that intersect it.
\<close>

definition example_sub :: "string \<Rightarrow> geom \<Rightarrow> real \<Rightarrow> real list \<Rightarrow> subcuenca" where
  "example_sub code g area glaciers =
     \<lparr> COD_SUBC = code, NOM_SUBC = ''Rio'', COD_CUEN = ''113'', geometry = g,
       sub_area_km2 = area, glaciers_in = glaciers \<rparr>"

text \<open>
  A geometry that is not empty and whose rectangles have their corners in order, and
  the test \<^verbatim>\<open>not geom.is_empty\<close> for the band of index \<open>i\<close>.
\<close>

definition valid_geom :: "geom \<Rightarrow> bool" where
  "valid_geom g = (g \<noteq> [] \<and> list_all (\<lambda>(x1, y1, x2, y2). x1 \<le> x2 \<and> y1 \<le> y2) g)"

definition band_meets :: "geom \<Rightarrow> nat \<Rightarrow> nat \<Rightarrow> bool" where
  "band_meets g n_div i = (intersection g (band_box g n_div i) \<noteq> [])"

text \<open>
  The bands of the specification: the bounding box of the geometry is split into \<open>n\<close>
  strips of equal height between its lowest and its highest y, and the geometry meets
  the strip of index \<open>i\<close> when one of its rectangles has a point between the lower and
  the upper edge of the strip, the edges included.
\<close>

definition spec_band_meets :: "geom \<Rightarrow> nat \<Rightarrow> nat \<Rightarrow> bool" where
  "spec_band_meets g n i =
     (let lowest = Min (set (map (\<lambda>(x1, y1, x2, y2). y1) g));
          highest = Max (set (map (\<lambda>(x1, y1, x2, y2). y2) g));
          height = highest - lowest
      in list_ex (\<lambda>(x1, y1, x2, y2).
                    y1 \<le> lowest + real (i + 1) * height / real n \<and>
                    lowest + real i * height / real n \<le> y2) g)"

text \<open>
  A call with the thresholds of the specification: a threshold that the call passes is
  passed once, and with the value 50 for \<^verbatim>\<open>small_km2\<close>, 200 for \<^verbatim>\<open>medium_km2\<close> and 5
  for \<^verbatim>\<open>glacier_density_threshold\<close>.
\<close>

definition spec_thresholds :: "passed_args \<Rightarrow> bool" where
  "spec_thresholds passed =
     (distinct (map fst passed) \<and>
      list_all (\<lambda>(name, v). (name, num_value v) \<in>
                  set [(''small_km2'', 50), (''medium_km2'', 200),
                       (''glacier_density_threshold'', 5)])
        passed)"

text \<open>
  Test vectors: six sub-basins whose geometry is one rectangle, with the areas, glacier
  counts and densities of the division table; a sub-basin of 300 square kilometres and
  a glacier density above 5% whose geometry is two rectangles far apart in y; two rows
  with the same code, of which the first has a glacier and the second has none.
\<close>

definition example_table :: "subcuenca list" where
  "example_table =
     [example_sub ''A'' [(0, 0, 1, 3)] 40 [2],
      example_sub ''B'' [(0, 0, 1, 3)] 120 [],
      example_sub ''C'' [(0, 0, 1, 3)] 120 [2],
      example_sub ''D'' [(0, 0, 1, 3)] 300 [20],
      example_sub ''E'' [(0, 0, 1, 3)] 300 [10],
      example_sub ''F'' [(0, 0, 1, 3)] 300 []]"

definition example_two_parts :: subcuenca where
  "example_two_parts = example_sub ''G'' [(0, 0, 1, 1), (0, 5, 1, 6)] 300 [20]"

definition example_same_code :: "subcuenca list" where
  "example_same_code =
     [example_sub ''H'' [(0, 0, 1, 3)] 120 [2], example_sub ''H'' [(2, 0, 3, 3)] 120 []]"

text \<open>
  The thresholds as \<^verbatim>\<open>load_base_data\<close> passes them:
  \<^verbatim>\<open>small_km2=50, medium_km2=200, glacier_density_threshold=5\<close>.
\<close>

definition example_call :: passed_args where
  "example_call =
     [(''small_km2'', PyInt 50), (''medium_km2'', PyInt 200),
      (''glacier_density_threshold'', PyInt 5)]"

section \<open>Properties of the loops\<close>

lemma traverse_Inr:
  "traverse f xs = Inr ys \<Longrightarrow> list_all2 (\<lambda>x y. f x = Inr y) xs ys"
  by (induction xs arbitrary: ys) (auto split: sum.splits)

lemma traverse_total:
  "\<forall>x\<in>set xs. \<forall>e. f x \<noteq> Inl e \<Longrightarrow> \<exists>ys. traverse f xs = Inr ys"
  by (induction xs) (auto split: sum.splits)

lemma traverse_skip_filter:
  assumes "\<And>x. x \<in> set xs \<Longrightarrow>
             (if P x then \<exists>y. f x = Inr (Some y) \<and> Q x y else f x = Inr None)"
  shows "\<exists>ys. traverse_skip f xs = Inr ys \<and> list_all2 Q (filter P xs) ys"
  using assms
proof (induction xs)
  case Nil
  then show ?case by simp
next
  case (Cons x xs)
  then obtain ys where ys: "traverse_skip f xs = Inr ys" "list_all2 Q (filter P xs) ys"
    by auto
  show ?case
  proof (cases "P x")
    case True
    with Cons.prems [of x] obtain y where "f x = Inr (Some y)" "Q x y" by auto
    with ys True show ?thesis by simp
  next
    case False
    with Cons.prems [of x] have "f x = Inr None" by auto
    with ys False show ?thesis by simp
  qed
qed

section \<open>Properties of the risk classification\<close>

lemma classify_risk_Num:
  "classify_risk (Num s) =
     (if 0 \<le> s \<and> s < 0.25 then ''bajo''
      else if 0.25 \<le> s \<and> s < 0.5 then ''medio''
      else if 0.5 \<le> s \<and> s < 0.75 then ''alto''
      else ''critico'')"
  by (simp add: classify_risk_def RISK_LEVELS_def)

lemma classify_risk_NaN:
  "classify_risk NaN = ''critico''"
  by (simp add: classify_risk_def RISK_LEVELS_def)

text \<open>
  Claim C1. The classifier maps every score in [0, 0.25) to bajo, [0.25, 0.50) to medio,
  [0.50, 0.75) to alto and [0.75, 1.0) to critico, trying the levels in the order
  bajo, medio, alto, critico and returning the first that matches; a score of 1.0 or
  more, NaN, and any float that matches no range of the table give critico; the nine
  scores of the test vector give bajo, bajo, medio, medio, alto, alto, critico, critico,
  critico.
\<close>

theorem classify_risk_ranges:
  "(0 \<le> s \<and> s < 0.25 \<longrightarrow> classify_risk (Num s) = ''bajo'') \<and>
   (0.25 \<le> s \<and> s < 0.50 \<longrightarrow> classify_risk (Num s) = ''medio'') \<and>
   (0.50 \<le> s \<and> s < 0.75 \<longrightarrow> classify_risk (Num s) = ''alto'') \<and>
   (0.75 \<le> s \<and> s < 1.0 \<longrightarrow> classify_risk (Num s) = ''critico'') \<and>
   (1.0 \<le> s \<longrightarrow> classify_risk (Num s) = ''critico'') \<and>
   classify_risk NaN = ''critico'' \<and>
   ((\<forall>(risk_level, min_val, max_val, color, label) \<in> set RISK_LEVELS.
        \<not> (py_le (Num min_val) f \<and> py_lt f (Num max_val)))
      \<longrightarrow> classify_risk f = ''critico'') \<and>
   map fst RISK_LEVELS = [''bajo'', ''medio'', ''alto'', ''critico''] \<and>
   classify_risk f = classify_loop RISK_LEVELS f \<and>
   map (\<lambda>x. classify_risk (Num x))
       [0.0, 0.24999, 0.25, 0.49999, 0.5, 0.74999, 0.75, 0.99999, 1.2] =
     [''bajo'', ''bajo'', ''medio'', ''medio'', ''alto'', ''alto'',
      ''critico'', ''critico'', ''critico'']"
proof -
  have fall: "(\<forall>(risk_level, min_val, max_val, color, label) \<in> set RISK_LEVELS.
        \<not> (py_le (Num min_val) f \<and> py_lt f (Num max_val)))
      \<longrightarrow> classify_risk f = ''critico''"
    by (simp add: classify_risk_def RISK_LEVELS_def)
  have order: "map fst RISK_LEVELS = [''bajo'', ''medio'', ''alto'', ''critico'']"
    by (simp add: RISK_LEVELS_def)
  have vec: "map (\<lambda>x. classify_risk (Num x))
       [0.0, 0.24999, 0.25, 0.49999, 0.5, 0.74999, 0.75, 0.99999, 1.2] =
     [''bajo'', ''bajo'', ''medio'', ''medio'', ''alto'', ''alto'',
      ''critico'', ''critico'', ''critico'']"
    by (simp add: classify_risk_Num)
  show ?thesis
    using fall order vec
    by (simp add: classify_risk_Num classify_risk_NaN) (simp add: classify_risk_def)
qed

theorem classify_risk_ranges_witness:
  "(0 \<le> (0.1::real) \<and> (0.1::real) < 0.25) \<and> classify_risk (Num 0.1) = ''bajo'' \<and>
   (0.25 \<le> (0.3::real) \<and> (0.3::real) < 0.50) \<and> classify_risk (Num 0.3) = ''medio'' \<and>
   (0.50 \<le> (0.6::real) \<and> (0.6::real) < 0.75) \<and> classify_risk (Num 0.6) = ''alto'' \<and>
   (0.75 \<le> (0.9::real) \<and> (0.9::real) < 1.0) \<and> classify_risk (Num 0.9) = ''critico'' \<and>
   (1.0 \<le> (1.2::real)) \<and> classify_risk (Num 1.2) = ''critico'' \<and>
   list_all (\<lambda>(risk_level, min_val, max_val, color, label).
        \<not> (py_le (Num min_val) (Num (- 1)) \<and> py_lt (Num (- 1)) (Num max_val))) RISK_LEVELS \<and>
   classify_risk (Num (- 1)) = ''critico''"
proof -
  have nomatch: "\<forall>(risk_level, min_val, max_val, color, label) \<in> set RISK_LEVELS.
        \<not> (py_le (Num min_val) (Num (- 1)) \<and> py_lt (Num (- 1)) (Num max_val))"
    by (simp add: RISK_LEVELS_def)
  have neg: "classify_risk (Num (- 1)) = ''critico''"
    using classify_risk_ranges [of 0 "Num (- 1)"] nomatch by blast
  show ?thesis
    using classify_risk_ranges [of "0.1" NaN] classify_risk_ranges [of "0.3" NaN]
      classify_risk_ranges [of "0.6" NaN] classify_risk_ranges [of "0.9" NaN]
      classify_risk_ranges [of "1.2" NaN] neg nomatch
    by (simp add: list_all_iff)
qed

text \<open>
  Claim C10. Every score strictly below 0.0 is classified critico: no range of the table
  matches it (each needs \<^verbatim>\<open>min_val <= score\<close>) and the loop falls through to the
  default, so the lowest scores get the label of the highest risk.
\<close>

theorem classify_risk_negative:
  "s < 0 \<Longrightarrow>
     classify_risk (Num s) = ''critico'' \<and>
     list_all (\<lambda>(risk_level, min_val, max_val, color, label).
        \<not> (py_le (Num min_val) (Num s) \<and> py_lt (Num s) (Num max_val))) RISK_LEVELS"
  by (simp add: classify_risk_Num RISK_LEVELS_def)

theorem classify_risk_negative_witness:
  "(- 0.5 :: real) < 0 \<and> classify_risk (Num (- 0.5)) = ''critico''"
  using classify_risk_negative [of "- 0.5"] by simp

section \<open>Properties of the model chain\<close>

lemma find_filter:
  "find P xs = (case filter P xs of [] \<Rightarrow> None | x # _ \<Rightarrow> Some x)"
  by (induction xs) simp_all

lemma hru_elevation_spec:
  assumes "hru_elevation self (filter (\<lambda>g. g_grid_id g = gid) (grids_gdf self)) gid = Inr h"
  shows "case hru_mean_elevation self gid of
           Some he \<Rightarrow> h = Num he
         | None \<Rightarrow> \<not> py_lt (Num 0) h"
  using assms
  by (auto simp: hru_elevation_def hru_mean_elevation_def find_filter
      split: if_splits list.splits option.splits pyfloat.splits)

lemma hru_elevation_in_base:
  "gid \<in> g_grid_id ` set (grids_gdf self) \<Longrightarrow>
     \<exists>h. hru_elevation self (filter (\<lambda>g. g_grid_id g = gid) (grids_gdf self)) gid = Inr h"
  unfolding hru_elevation_def
  by (auto simp: filter_empty_conv split: list.splits option.splits)

lemma adjust_temp_spec:
  assumes "case hru of Some he \<Rightarrow> h = Num he | None \<Rightarrow> \<not> py_lt (Num 0) h"
  shows "adjust_temp t (model_elevation c) h =
     (if elevation c = Float NaN \<and> (\<exists>he. hru = Some he \<and> 0 < he) then NaN
      else Num (spec_adjusted_temp t (forecast_model_elevation c) hru))"
  using assms
  by (cases "elevation c"; cases hru)
     (auto simp: adjust_temp_def model_elevation_def forecast_model_elevation_def
        spec_adjusted_temp_def lapse_rate_def split: pyfloat.splits)

lemma temp_excess_spec:
  "temp_excess_of a = (case a of Num x \<Rightarrow> max 0 (x - 0.0) | NaN \<Rightarrow> 0)"
  by (cases a) (auto simp: temp_excess_of_def py_max_def BASE_TEMP_THRESHOLD_def)

text \<open>
  The melt row of a climate row follows the rule of the specification, but for a model
  elevation that is NaN with a positive HRU elevation: the adjusted temperature is NaN
  there, and the melt rate 0.
\<close>

lemma melt_of_row_spec:
  assumes "hru_elevation self (filter (\<lambda>g. g_grid_id g = c_grid_id c) (grids_gdf self))
             (c_grid_id c) = Inr h"
  shows "\<exists>m. melt_of_row self c = Inr m \<and> m_grid_id m = c_grid_id c \<and>
           temp_for_melt m =
             (if elevation c = Float NaN \<and>
                 (\<exists>he. hru_mean_elevation self (c_grid_id c) = Some he \<and> 0 < he)
              then NaN
              else Num (spec_adjusted_temp (temp_current c) (forecast_model_elevation c)
                          (hru_mean_elevation self (c_grid_id c)))) \<and>
           melt_rate_mm_day m =
             (case temp_for_melt m of
                Num a \<Rightarrow> spec_melt_rate a (snow_24h c)
              | NaN \<Rightarrow> 0)"
  using assms adjust_temp_spec [OF hru_elevation_spec [OF assms], of "temp_current c" c]
  by (simp add: melt_of_row_def Let_def temp_excess_spec
      spec_melt_rate_def DEGREE_DAY_FACTOR_ICE_def DEGREE_DAY_FACTOR_SNOW_def)

lemma calculate_melt_rows:
  assumes "climate_data self = Some rows" and "rows \<noteq> []"
    and "\<forall>c\<in>set rows. c_grid_id c \<in> g_grid_id ` set (grids_gdf self)"
  shows "\<exists>melt_df. calculate_melt self = Inr (Some melt_df) \<and>
           list_all2 (\<lambda>c m. m_grid_id m = c_grid_id c \<and>
               temp_for_melt m =
                 (if elevation c = Float NaN \<and>
                     (\<exists>he. hru_mean_elevation self (c_grid_id c) = Some he \<and> 0 < he)
                  then NaN
                  else Num (spec_adjusted_temp (temp_current c) (forecast_model_elevation c)
                              (hru_mean_elevation self (c_grid_id c)))) \<and>
               melt_rate_mm_day m =
                 (case temp_for_melt m of
                    Num a \<Rightarrow> spec_melt_rate a (snow_24h c)
                  | NaN \<Rightarrow> 0))
             rows melt_df"
proof -
  let ?row = "\<lambda>c m. m_grid_id m = c_grid_id c \<and>
               temp_for_melt m =
                 (if elevation c = Float NaN \<and>
                     (\<exists>he. hru_mean_elevation self (c_grid_id c) = Some he \<and> 0 < he)
                  then NaN
                  else Num (spec_adjusted_temp (temp_current c) (forecast_model_elevation c)
                              (hru_mean_elevation self (c_grid_id c)))) \<and>
               melt_rate_mm_day m =
                 (case temp_for_melt m of
                    Num a \<Rightarrow> spec_melt_rate a (snow_24h c)
                  | NaN \<Rightarrow> 0)"
  have spec: "\<exists>m. melt_of_row self c = Inr m \<and> ?row c m" if "c \<in> set rows" for c
  proof -
    from that assms(3) obtain h where
      "hru_elevation self (filter (\<lambda>g. g_grid_id g = c_grid_id c) (grids_gdf self))
         (c_grid_id c) = Inr h"
      using hru_elevation_in_base by blast
    from melt_of_row_spec [OF this] show ?thesis .
  qed
  have "\<forall>c\<in>set rows. \<forall>e. melt_of_row self c \<noteq> Inl e"
    using spec by fastforce
  then obtain melt_df where t: "traverse (melt_of_row self) rows = Inr melt_df"
    using traverse_total by blast
  have res: "calculate_melt self = Inr (Some melt_df)"
    using assms(1,2) t by (simp add: calculate_melt_def)
  have "list_all2 (\<lambda>c m. melt_of_row self c = Inr m) rows melt_df"
    using traverse_Inr [OF t] .
  then have "list_all2 ?row rows melt_df"
  proof (rule list.rel_mono_strong)
    fix c m assume "c \<in> set rows" and m: "melt_of_row self c = Inr m"
    with spec [of c] show "?row c m"
      by auto
  qed
  with res show ?thesis by blast
qed

text \<open>
  The test vectors of the specification: 6 degrees without snow and without correction
  give 48.0 mm/day, with snow 24.0 mm/day; model elevation 500 m, HRU elevation 2500 m
  and 4 degrees give the adjusted temperature -9 and no melt.
\<close>

lemma calculate_melt_examples:
  "calculate_melt (example_calc 6 0 0 0 (Float (Num 0)) 10 None) =
     Inr (Some [\<lparr> m_grid_id = 0, melt_rate_mm_day = 48.0, temp_for_melt = Num 6,
                   m_glacier_area_km2 = 2, snow_recent = False \<rparr>])"
  "calculate_melt (example_calc 6 0 0 1 (Float (Num 0)) 10 None) =
     Inr (Some [\<lparr> m_grid_id = 0, melt_rate_mm_day = 24.0, temp_for_melt = Num 6,
                   m_glacier_area_km2 = 2, snow_recent = True \<rparr>])"
  "calculate_melt (example_calc 4 0 0 0 (Float (Num 500)) 10
       (Some [\<lparr> t_grid_id = 0, t_elevation_mean = 2500, slope_mean = 0 \<rparr>])) =
     Inr (Some [\<lparr> m_grid_id = 0, melt_rate_mm_day = 0, temp_for_melt = Num (- 9),
                   m_glacier_area_km2 = 2, snow_recent = False \<rparr>])"
  by (simp_all add: calculate_melt_def example_calc_def melt_of_row_def hru_elevation_def
      model_elevation_def adjust_temp_def temp_excess_of_def py_max_def lapse_rate_def
      BASE_TEMP_THRESHOLD_def DEGREE_DAY_FACTOR_ICE_def DEGREE_DAY_FACTOR_SNOW_def Let_def)

text \<open>
  Claim C3. For every unit with a climate record the melt rate is 8.0 * max(0, adjusted
  temperature - 0.0), and 4.0 * max(0, adjusted temperature - 0.0) with snow in the last
  24 hours, where the adjusted temperature is the forecast temperature plus (HRU
  elevation - model elevation) * (-0.0065) when the model elevation is known and the HRU
  mean elevation is positive, and the forecast temperature otherwise. The code tests the
  model elevation with \<^verbatim>\<open>is not None\<close>, under the comment that the correction is applied
  only with valid data, and a model elevation that is missing in the climate table is
  NaN there. Three units of mean elevation 2500 m, 3000 m and 1500 m get the climate
  rows of a forecast answer with the model elevations 500 m, \<^verbatim>\<open>null\<close> and none (the
  fallback record): the column of the climate table holds 500, NaN and NaN. The second
  unit, at 6 degrees and without snow, has the adjusted temperature 6 and the melt rate
  48 mm/day by the rule, and NaN and 0 in the melt table; the third, at 0 degrees, has
  the adjusted temperature 0 by the rule and NaN in the melt table.
\<close>

theorem calculate_melt_missing_model_elevation:
  "(case get_climate_data example_units example_answer of
      Inl e \<Rightarrow> Inl e
    | Inr self \<Rightarrow>
        (case calculate_melt self of
           Inl e \<Rightarrow> Inl e
         | Inr melt_df \<Rightarrow>
             Inr (map_option (map (\<lambda>c. (c_grid_id c, elevation c))) (climate_data self),
                  map_option (map (\<lambda>m. (m_grid_id m, temp_for_melt m, melt_rate_mm_day m)))
                    melt_df,
                  map_option
                    (map (\<lambda>c. (c_grid_id c,
                                forecast_model_elevation c,
                                hru_mean_elevation self (c_grid_id c),
                                spec_adjusted_temp (temp_current c) (forecast_model_elevation c)
                                  (hru_mean_elevation self (c_grid_id c)),
                                spec_melt_rate
                                  (spec_adjusted_temp (temp_current c) (forecast_model_elevation c)
                                     (hru_mean_elevation self (c_grid_id c)))
                                  (snow_24h c))))
                    (climate_data self)))) =
     Inr (Some [(0, Float (Num 500)), (1, Float NaN), (2, Float NaN)],
          Some [(0, Num (- 9), 0), (1, NaN, 0), (2, NaN, 0)],
          Some [(0, Some 500, Some 2500, - 9, 0),
                (1, None, Some 3000, 6, 48),
                (2, None, Some 1500, 0, 0)])"
  by code_simp

lemma runoff_coeff_spec:
  "select_runoff_coeff t = Inr (spec_runoff_coeff (map_option slope_mean t))"
  by (cases t)
     (simp_all add: select_runoff_coeff_def spec_runoff_coeff_def runoff_coefficient_def
        RUNOFF_COEFFICIENTS_def Let_def)

lemma topo_row_of_slope:
  "map_option slope_mean (topo_row_of self gid) = unit_slope self gid"
  by (simp add: topo_row_of_def unit_slope_def find_filter split: option.splits list.splits)

lemma runoff_of_grid_spec:
  assumes "climate_data self = Some rows" and "rows \<noteq> []"
  shows "if has_climate self g
         then \<exists>r. runoff_of_grid self g = Inr (Some r) \<and>
                r_grid_id r = g_grid_id g \<and>
                (\<exists>c. unit_climate self (g_grid_id g) = Some c \<and>
                   runoff_m3s r =
                     spec_runoff (unit_slope self (g_grid_id g))
                       (precip_24h c)
                       (case g_area_km2 g of Some a \<Rightarrow> a | None \<Rightarrow> g_geom_area_km2 g))
         else runoff_of_grid self g = Inr None"
  using assms
  by (auto simp: has_climate_def unit_climate_def runoff_of_grid_def frame_select_opt_def
      frame_select_def Let_def runoff_coeff_spec topo_row_of_slope spec_runoff_def
      grid_area_km2_def
      split: list.splits option.splits)

lemma calculate_runoff_rows:
  assumes "climate_data self = Some rows" and "rows \<noteq> []"
  shows "\<exists>runoff_df. calculate_runoff self melt_df = Inr runoff_df \<and>
           list_all2 (\<lambda>g r. r_grid_id r = g_grid_id g \<and>
                (\<exists>c. unit_climate self (g_grid_id g) = Some c \<and>
                   runoff_m3s r =
                     spec_runoff (unit_slope self (g_grid_id g))
                       (precip_24h c)
                       (case g_area_km2 g of Some a \<Rightarrow> a | None \<Rightarrow> g_geom_area_km2 g)))
             (filter (has_climate self) (grids_gdf self)) runoff_df"
  unfolding calculate_runoff_def
  by (rule traverse_skip_filter) (rule runoff_of_grid_spec [OF assms])

lemma calculate_runoff_example:
  "calculate_runoff (example_calc 6 48 48 0 (Float (Num 0)) 10
       (Some [\<lparr> t_grid_id = 0, t_elevation_mean = 100, slope_mean = 8 \<rparr>])) None =
     Inr [\<lparr> r_grid_id = 0, runoff_m3s = 1.946, runoff_coeff = 0.35, slope_percent = 8,
            precip_intensity_mm_h = 2 \<rparr>]"
  by (simp add: calculate_runoff_def example_calc_def runoff_of_grid_def frame_select_opt_def
      frame_select_def topo_row_of_def select_runoff_coeff_def runoff_coefficient_def
      RUNOFF_COEFFICIENTS_def grid_area_km2_def Let_def)

text \<open>
  Claim C5. For every unit with a climate record, calculate_runoff gives the runoff
  C * I * A * 0.278, where C comes from the mean slope of the unit (below 5: 0.20, from 5
  to 10: 0.35, from 10 to 20: 0.50, 20 and more: 0.70, and 0.50 without a topography
  record), I is the precipitation of 24 hours divided by 24 (0 when it is not positive)
  and A is the area of the unit in square kilometres, 1.0 in place of an area that is
  not positive. Slope 8, precipitation 48 mm and area 10 give 1.946 within 1e-6.
\<close>

theorem calculate_runoff_rational:
  assumes "climate_data self = Some rows" and "rows \<noteq> []"
  shows "(\<exists>runoff_df. calculate_runoff self melt_df = Inr runoff_df \<and>
           list_all2 (\<lambda>g r. r_grid_id r = g_grid_id g \<and>
                (\<exists>c. unit_climate self (g_grid_id g) = Some c \<and>
                   runoff_m3s r =
                     spec_runoff (unit_slope self (g_grid_id g))
                       (precip_24h c)
                       (case g_area_km2 g of Some a \<Rightarrow> a | None \<Rightarrow> g_geom_area_km2 g)))
             (filter (has_climate self) (grids_gdf self)) runoff_df) \<and>
         (\<exists>r. calculate_runoff (example_calc 6 48 48 0 (Float (Num 0)) 10
                  (Some [\<lparr> t_grid_id = 0, t_elevation_mean = 100, slope_mean = 8 \<rparr>])) None
                = Inr [r] \<and>
              runoff_coeff r = 0.35 \<and> precip_intensity_mm_h r = 2 \<and>
              \<bar>runoff_m3s r - 1.946\<bar> \<le> 0.000001)"
  using calculate_runoff_rows [OF assms, of melt_df] calculate_runoff_example by simp

theorem calculate_runoff_rational_witness:
  "\<exists>runoff_df.
     calculate_runoff (example_calc 6 12 30 0 (Float (Num 0)) (- 3)
         (Some [\<lparr> t_grid_id = 1, t_elevation_mean = 100, slope_mean = 3 \<rparr>,
                \<lparr> t_grid_id = 0, t_elevation_mean = 100, slope_mean = 25 \<rparr>])) None
       = Inr runoff_df \<and>
     map runoff_m3s runoff_df = [0.0973]"
proof -
  let ?topo = "Some [\<lparr> t_grid_id = 1, t_elevation_mean = 100, slope_mean = 3 \<rparr>,
                     \<lparr> t_grid_id = 0, t_elevation_mean = 100, slope_mean = 25 \<rparr>]"
  let ?self = "example_calc 6 12 30 0 (Float (Num 0)) (- 3) ?topo"
  let ?c = "\<lparr> temp_current = 6, precip_24h = 12, precip_72h = 30, snow_24h = 0,
             elevation = Float (Num 0), c_grid_id = 0 \<rparr>"
  let ?g = "\<lparr> g_grid_id = 0, g_area_km2 = Some (- 3), g_geom_area_km2 = - 3,
             g_glacier_area_km2 = Some 2, g_elevation_mean = None \<rparr>"
  have rows: "climate_data ?self = Some [?c]"
    by (simp add: example_calc_def)
  have ne: "[?c] \<noteq> []"
    by simp
  have units: "filter (has_climate ?self) (grids_gdf ?self) = [?g]"
    by (simp add: has_climate_def unit_climate_def example_calc_def)
  have clim: "unit_climate ?self 0 = Some ?c"
    by (simp add: unit_climate_def example_calc_def)
  have slope: "unit_slope ?self 0 = Some 25"
    by (simp add: unit_slope_def example_calc_def)
  from calculate_runoff_rational [OF rows ne, of None]
  obtain runoff_df where res: "calculate_runoff ?self None = Inr runoff_df"
    and all: "list_all2 (\<lambda>g r. r_grid_id r = g_grid_id g \<and>
                (\<exists>c. unit_climate ?self (g_grid_id g) = Some c \<and>
                   runoff_m3s r =
                     spec_runoff (unit_slope ?self (g_grid_id g))
                       (precip_24h c)
                       (case g_area_km2 g of Some a \<Rightarrow> a | None \<Rightarrow> g_geom_area_km2 g)))
             (filter (has_climate ?self) (grids_gdf ?self)) runoff_df"
    by blast
  from all obtain r where r: "runoff_df = [r]"
    and q: "\<exists>c. unit_climate ?self 0 = Some c \<and>
              runoff_m3s r =
                spec_runoff (unit_slope ?self 0) (precip_24h c) (- 3)"
    unfolding units by (auto simp: list_all2_Cons1)
  from q clim slope have "runoff_m3s r = 0.0973"
    by (simp add: spec_runoff_def spec_runoff_coeff_def)
  with res r show ?thesis by simp
qed

lemma risk_of_grid_spec:
  assumes "climate_data self = Some rows" and "rows \<noteq> []"
    and "melt_df = Some melt_rows" and "melt_rows \<noteq> []" and "runoff_df \<noteq> []"
  shows "if has_climate self g
         then \<exists>k. risk_of_grid self melt_df runoff_df g = Inr (Some k) \<and>
                k_grid_id k = g_grid_id g \<and>
                (\<exists>c. unit_climate self (g_grid_id g) = Some c \<and>
                   risk_score k =
                     spec_risk_score (unit_melt_rate melt_df (g_grid_id g))
                       (unit_runoff runoff_df (g_grid_id g)) (precip_72h c)) \<and>
                risk_class k = classify_risk (Num (risk_score k))
         else risk_of_grid self melt_df runoff_df g = Inr None"
  using assms
  by (auto simp: has_climate_def unit_climate_def risk_of_grid_def frame_select_opt_def
      frame_select_def Let_def spec_risk_score_def risk_weights_def unit_melt_rate_def
      unit_runoff_def
      split: list.splits option.splits)

lemma calculate_flood_risk_rows:
  assumes "climate_data self = Some rows" and "rows \<noteq> []"
    and "melt_df = Some melt_rows" and "melt_rows \<noteq> []" and "runoff_df \<noteq> []"
  shows "\<exists>risk_df. calculate_flood_risk self melt_df runoff_df = Inr risk_df \<and>
           list_all2 (\<lambda>g k. k_grid_id k = g_grid_id g \<and>
                (\<exists>c. unit_climate self (g_grid_id g) = Some c \<and>
                   risk_score k =
                     spec_risk_score (unit_melt_rate melt_df (g_grid_id g))
                       (unit_runoff runoff_df (g_grid_id g)) (precip_72h c)) \<and>
                risk_class k = classify_risk (Num (risk_score k)))
             (filter (has_climate self) (grids_gdf self)) risk_df"
  unfolding calculate_flood_risk_def
  by (rule traverse_skip_filter) (rule risk_of_grid_spec [OF assms])

lemma calculate_flood_risk_examples:
  "\<exists>k. calculate_flood_risk (example_calc 0 50 150 0 (Float (Num 0)) 10 None)
          (example_melt_df 0.05) (example_runoff_df 500) = Inr [k] \<and>
        risk_score k = 0.47505 \<and>
        (melt_component k, runoff_component k, precip_component k) = (0.001, 0.5, 0.5)"
  "\<exists>k. calculate_flood_risk (example_calc 0 50 150 0 (Float (Num 0)) 10 None)
          (example_melt_df 5) (example_runoff_df 500) = Inr [k] \<and>
        risk_score k = 0.34"
  by (simp_all add: calculate_flood_risk_def example_calc_def example_melt_df_def
      example_runoff_df_def risk_of_grid_def frame_select_opt_def frame_select_def
      first_or_zero_def risk_weights_def Let_def)

text \<open>
  Claim C4. The weights of calculate_flood_risk depend on the data: for every unit with
  a climate record the score is 0.05 * min(1, melt/50) + 0.55 * min(1, runoff/1000) +
  0.40 * min(1, precip_72h/300) when the melt rate of the unit is below 0.1 mm/day, and
  0.40 * min(1, melt/50) + 0.40 * min(1, runoff/1000) + 0.20 * min(1, precip_72h/300)
  otherwise. Melt 0.05, runoff 500 and 150 mm of precipitation give about 0.4751
  (0.47505); melt 5 with the same runoff and precipitation gives 0.34.
\<close>

theorem calculate_flood_risk_weights:
  assumes "climate_data self = Some rows" and "rows \<noteq> []"
    and "melt_df = Some melt_rows" and "melt_rows \<noteq> []" and "runoff_df \<noteq> []"
  shows "(\<exists>risk_df. calculate_flood_risk self melt_df runoff_df = Inr risk_df \<and>
           list_all2 (\<lambda>g k. k_grid_id k = g_grid_id g \<and>
                (\<exists>c. unit_climate self (g_grid_id g) = Some c \<and>
                   risk_score k =
                     spec_risk_score (unit_melt_rate melt_df (g_grid_id g))
                       (unit_runoff runoff_df (g_grid_id g)) (precip_72h c)) \<and>
                risk_class k = classify_risk (Num (risk_score k)))
             (filter (has_climate self) (grids_gdf self)) risk_df) \<and>
         (\<exists>k. calculate_flood_risk (example_calc 0 50 150 0 (Float (Num 0)) 10 None)
                 (example_melt_df 0.05) (example_runoff_df 500) = Inr [k] \<and>
               risk_score k = 0.47505 \<and> \<bar>risk_score k - 0.4751\<bar> \<le> 0.0001) \<and>
         (\<exists>k. calculate_flood_risk (example_calc 0 50 150 0 (Float (Num 0)) 10 None)
                 (example_melt_df 5) (example_runoff_df 500) = Inr [k] \<and>
               risk_score k = 0.34)"
proof -
  from calculate_flood_risk_examples(1)
  have "\<exists>k. calculate_flood_risk (example_calc 0 50 150 0 (Float (Num 0)) 10 None)
                 (example_melt_df 0.05) (example_runoff_df 500) = Inr [k] \<and>
               risk_score k = 0.47505 \<and> \<bar>risk_score k - 0.4751\<bar> \<le> 0.0001"
    by auto
  with calculate_flood_risk_rows [OF assms] calculate_flood_risk_examples(2)
  show ?thesis by blast
qed

theorem calculate_flood_risk_weights_witness:
  "\<exists>risk_df.
     calculate_flood_risk (example_calc 0 50 150 0 (Float (Num 0)) 10 None)
         (example_melt_df 0.05) (example_runoff_df 500) = Inr risk_df \<and>
     map risk_score risk_df = [0.47505] \<and>
     map risk_class risk_df = [''medio'']"
proof -
  let ?self = "example_calc 0 50 150 0 (Float (Num 0)) 10 None"
  let ?c = "\<lparr> temp_current = 0, precip_24h = 50, precip_72h = 150, snow_24h = 0,
             elevation = Float (Num 0), c_grid_id = 0 \<rparr>"
  let ?g = "\<lparr> g_grid_id = 0, g_area_km2 = Some 10, g_geom_area_km2 = 10,
             g_glacier_area_km2 = Some 2, g_elevation_mean = None \<rparr>"
  have rows: "climate_data ?self = Some [?c]"
    by (simp add: example_calc_def)
  have ne: "[?c] \<noteq> []"
    by simp
  have melt: "example_melt_df 0.05 = Some (the (example_melt_df 0.05))"
    and melt_ne: "the (example_melt_df 0.05) \<noteq> []"
    and runoff_ne: "example_runoff_df 500 \<noteq> []"
    by (simp_all add: example_melt_df_def example_runoff_df_def)
  have units: "filter (has_climate ?self) (grids_gdf ?self) = [?g]"
    by (simp add: has_climate_def unit_climate_def example_calc_def)
  have clim: "unit_climate ?self 0 = Some ?c"
    by (simp add: unit_climate_def example_calc_def)
  have vals: "unit_melt_rate (example_melt_df 0.05) 0 = 0.05"
    "unit_runoff (example_runoff_df 500) 0 = 500"
    by (simp_all add: unit_melt_rate_def unit_runoff_def first_or_zero_def
        example_melt_df_def example_runoff_df_def)
  from calculate_flood_risk_weights [OF rows ne melt melt_ne runoff_ne]
  obtain risk_df where
    res: "calculate_flood_risk ?self (example_melt_df 0.05) (example_runoff_df 500) = Inr risk_df"
    and all: "list_all2 (\<lambda>g k. k_grid_id k = g_grid_id g \<and>
                (\<exists>c. unit_climate ?self (g_grid_id g) = Some c \<and>
                   risk_score k =
                     spec_risk_score (unit_melt_rate (example_melt_df 0.05) (g_grid_id g))
                       (unit_runoff (example_runoff_df 500) (g_grid_id g)) (precip_72h c)) \<and>
                risk_class k = classify_risk (Num (risk_score k)))
             (filter (has_climate ?self) (grids_gdf ?self)) risk_df"
    by blast
  from all obtain k where k: "risk_df = [k]"
    and q: "\<exists>c. unit_climate ?self 0 = Some c \<and>
              risk_score k =
                spec_risk_score (unit_melt_rate (example_melt_df 0.05) 0)
                  (unit_runoff (example_runoff_df 500) 0) (precip_72h c)"
    and cl: "risk_class k = classify_risk (Num (risk_score k))"
    unfolding units by (auto simp: list_all2_Cons1)
  from q clim vals have score: "risk_score k = 0.47505"
    by (simp add: spec_risk_score_def)
  with cl have "risk_class k = ''medio''"
    by (simp add: classify_risk_Num)
  with res k score show ?thesis by simp
qed

lemma proj_of_grid_spec:
  assumes "climate_data self = Some rows" and "rows \<noteq> []"
    and "melt_df = Some melt_rows" and "melt_rows \<noteq> []" and "runoff_df \<noteq> []"
  shows "if has_climate self g
         then \<exists>p. proj_of_grid self melt_df runoff_df g = Inr (Some p) \<and>
                p_grid_id p = g_grid_id g \<and>
                melt_3d_mm p = 3 * unit_melt_rate melt_df (g_grid_id g) \<and>
                (\<exists>c. unit_climate self (g_grid_id g) = Some c \<and>
                   precip_3d_mm p = 3 * precip_24h c) \<and>
                water_total_3d_mm p = melt_3d_mm p + precip_3d_mm p \<and>
                risk_score_3d p =
                  spec_risk_score_3d (melt_3d_mm p) (unit_runoff runoff_df (g_grid_id g))
                    (precip_3d_mm p) \<and>
                risk_class_3d p = classify_risk (Num (risk_score_3d p))
         else proj_of_grid self melt_df runoff_df g = Inr None"
  using assms
  by (auto simp: has_climate_def unit_climate_def proj_of_grid_def frame_select_opt_def
      frame_select_def Let_def spec_risk_score_3d_def unit_melt_rate_def
      unit_runoff_def
      split: list.splits option.splits)

lemma calculate_projected_risk_3d_rows:
  assumes "climate_data self = Some rows" and "rows \<noteq> []"
    and "melt_df = Some melt_rows" and "melt_rows \<noteq> []" and "runoff_df \<noteq> []"
  shows "\<exists>proj_df. calculate_projected_risk_3d self melt_df runoff_df = Inr proj_df \<and>
           list_all2 (\<lambda>g p. p_grid_id p = g_grid_id g \<and>
                melt_3d_mm p = 3 * unit_melt_rate melt_df (g_grid_id g) \<and>
                (\<exists>c. unit_climate self (g_grid_id g) = Some c \<and>
                   precip_3d_mm p = 3 * precip_24h c) \<and>
                water_total_3d_mm p = melt_3d_mm p + precip_3d_mm p \<and>
                risk_score_3d p =
                  spec_risk_score_3d (melt_3d_mm p) (unit_runoff runoff_df (g_grid_id g))
                    (precip_3d_mm p) \<and>
                risk_class_3d p = classify_risk (Num (risk_score_3d p)))
             (filter (has_climate self) (grids_gdf self)) proj_df"
  unfolding calculate_projected_risk_3d_def
  by (rule traverse_skip_filter) (rule proj_of_grid_spec [OF assms])

text \<open>
  Claim C7. For every unit with a climate record, calculate_projected_risk_3d gives
  melt_3d_mm = 3 * the melt rate of the unit, precip_3d_mm = 3 * its precipitation of 24
  hours and water_total_3d_mm their sum, as a function of its inputs, and the projected
  score 0.35 * min(1, melt_3d/150) + 0.35 * min(1, runoff_m3s/1200) + 0.30 *
  min(1, precip_3d/300), classified by the same classifier.
\<close>

theorem calculate_projected_risk_3d_persistence:
  assumes "climate_data self = Some rows" and "rows \<noteq> []"
    and "melt_df = Some melt_rows" and "melt_rows \<noteq> []" and "runoff_df \<noteq> []"
  shows "\<exists>proj_df. calculate_projected_risk_3d self melt_df runoff_df = Inr proj_df \<and>
           list_all2 (\<lambda>g p. p_grid_id p = g_grid_id g \<and>
                melt_3d_mm p = 3 * unit_melt_rate melt_df (g_grid_id g) \<and>
                (\<exists>c. unit_climate self (g_grid_id g) = Some c \<and>
                   precip_3d_mm p = 3 * precip_24h c) \<and>
                water_total_3d_mm p = melt_3d_mm p + precip_3d_mm p \<and>
                risk_score_3d p =
                  spec_risk_score_3d (melt_3d_mm p) (unit_runoff runoff_df (g_grid_id g))
                    (precip_3d_mm p) \<and>
                risk_class_3d p = classify_risk (Num (risk_score_3d p)))
             (filter (has_climate self) (grids_gdf self)) proj_df"
  by (rule calculate_projected_risk_3d_rows [OF assms])

theorem calculate_projected_risk_3d_persistence_witness:
  "\<exists>proj_df.
     calculate_projected_risk_3d (example_calc 6 20 45 0 (Float (Num 0)) 10 None)
         (example_melt_df 48) (example_runoff_df 600) = Inr proj_df \<and>
     map melt_3d_mm proj_df = [144] \<and>
     map precip_3d_mm proj_df = [60] \<and>
     map water_total_3d_mm proj_df = [204] \<and>
     map risk_score_3d proj_df = [0.571] \<and>
     map risk_class_3d proj_df = [''alto'']"
proof -
  let ?self = "example_calc 6 20 45 0 (Float (Num 0)) 10 None"
  let ?c = "\<lparr> temp_current = 6, precip_24h = 20, precip_72h = 45, snow_24h = 0,
             elevation = Float (Num 0), c_grid_id = 0 \<rparr>"
  let ?g = "\<lparr> g_grid_id = 0, g_area_km2 = Some 10, g_geom_area_km2 = 10,
             g_glacier_area_km2 = Some 2, g_elevation_mean = None \<rparr>"
  have rows: "climate_data ?self = Some [?c]"
    by (simp add: example_calc_def)
  have ne: "[?c] \<noteq> []"
    by simp
  have melt: "example_melt_df 48 = Some (the (example_melt_df 48))"
    and melt_ne: "the (example_melt_df 48) \<noteq> []"
    and runoff_ne: "example_runoff_df 600 \<noteq> []"
    by (simp_all add: example_melt_df_def example_runoff_df_def)
  have units: "filter (has_climate ?self) (grids_gdf ?self) = [?g]"
    by (simp add: has_climate_def unit_climate_def example_calc_def)
  have clim: "unit_climate ?self 0 = Some ?c"
    by (simp add: unit_climate_def example_calc_def)
  have vals: "unit_melt_rate (example_melt_df 48) 0 = 48"
    "unit_runoff (example_runoff_df 600) 0 = 600"
    by (simp_all add: unit_melt_rate_def unit_runoff_def first_or_zero_def
        example_melt_df_def example_runoff_df_def)
  from calculate_projected_risk_3d_persistence [OF rows ne melt melt_ne runoff_ne]
  obtain proj_df where
    res: "calculate_projected_risk_3d ?self (example_melt_df 48) (example_runoff_df 600)
            = Inr proj_df"
    and all: "list_all2 (\<lambda>g p. p_grid_id p = g_grid_id g \<and>
                melt_3d_mm p = 3 * unit_melt_rate (example_melt_df 48) (g_grid_id g) \<and>
                (\<exists>c. unit_climate ?self (g_grid_id g) = Some c \<and>
                   precip_3d_mm p = 3 * precip_24h c) \<and>
                water_total_3d_mm p = melt_3d_mm p + precip_3d_mm p \<and>
                risk_score_3d p =
                  spec_risk_score_3d (melt_3d_mm p)
                    (unit_runoff (example_runoff_df 600) (g_grid_id g)) (precip_3d_mm p) \<and>
                risk_class_3d p = classify_risk (Num (risk_score_3d p)))
             (filter (has_climate ?self) (grids_gdf ?self)) proj_df"
    by blast
  from all obtain p where p: "proj_df = [p]"
    and m3: "melt_3d_mm p = 3 * unit_melt_rate (example_melt_df 48) 0"
    and p3: "\<exists>c. unit_climate ?self 0 = Some c \<and> precip_3d_mm p = 3 * precip_24h c"
    and w3: "water_total_3d_mm p = melt_3d_mm p + precip_3d_mm p"
    and s3: "risk_score_3d p =
               spec_risk_score_3d (melt_3d_mm p) (unit_runoff (example_runoff_df 600) 0)
                 (precip_3d_mm p)"
    and c3: "risk_class_3d p = classify_risk (Num (risk_score_3d p))"
    unfolding units by (auto simp: list_all2_Cons1)
  from m3 vals have m: "melt_3d_mm p = 144" by simp
  from p3 clim have pr: "precip_3d_mm p = 60" by simp
  from w3 m pr have w: "water_total_3d_mm p = 204" by simp
  from s3 m pr vals have sc: "risk_score_3d p = 0.571"
    by (simp add: spec_risk_score_3d_def)
  with c3 have "risk_class_3d p = ''alto''"
    by (simp add: classify_risk_Num)
  with res p m pr w sc show ?thesis by simp
qed

section \<open>The classifier and the critical banner\<close>

lemma classify_risk_critico_iff:
  "(classify_risk f = ''critico'') = (\<not> (py_le (Num 0) f \<and> py_lt f (Num 0.75)))"
  by (cases f) (auto simp: classify_risk_Num classify_risk_NaN)

text \<open>
  Claim C9, as the specification states it: the classifier never gives the class
  critico, so the banner of the dashboard never matches a class that the classifier
  made. The classifier gives critico for the score 0.8, and the banner counts the unit.
\<close>

theorem classify_risk_never_critico_counterexample:
  "classify_risk (Num 0.8) = ''critico'' \<and>
   critical_count [result_with_risk (risk_row_of_score 0.8)] = 1 \<and>
   critical_banner [result_with_risk (risk_row_of_score 0.8)]"
  by (simp add: classify_risk_Num critical_banner_def critical_count_def result_with_risk_def
      risk_row_of_score_def)

text \<open>
  Claim C9, amended: the classifier gives the class critico exactly for the scores
  outside [0, 0.75) (0.75 and more, the negative ones, NaN), and the banner counts
  exactly the units whose class, made by the classifier, is critico.
\<close>

theorem classify_risk_critico_banner:
  "(classify_risk f = ''critico'') = (\<not> (py_le (Num 0) f \<and> py_lt f (Num 0.75))) \<and>
   critical_count (map (\<lambda>s. result_with_risk (risk_row_of_score s)) scores) =
     length (filter (\<lambda>s. \<not> (0 \<le> s \<and> s < 0.75)) scores) \<and>
   critical_banner (map (\<lambda>s. result_with_risk (risk_row_of_score s)) scores) =
     list_ex (\<lambda>s. \<not> (0 \<le> s \<and> s < 0.75)) scores"
proof -
  have count: "critical_count (map (\<lambda>s. result_with_risk (risk_row_of_score s)) scores) =
     length (filter (\<lambda>s. \<not> (0 \<le> s \<and> s < 0.75)) scores)"
    by (induction scores)
       (simp_all add: critical_count_def result_with_risk_def risk_row_of_score_def
          classify_risk_Num)
  have "(length (filter (\<lambda>s. \<not> (0 \<le> s \<and> s < 0.75)) scores) > 0) =
     list_ex (\<lambda>s. \<not> (0 \<le> s \<and> s < 0.75)) scores"
    by (simp add: list_ex_iff length_greater_0_conv filter_empty_conv del: length_0_conv)
  with count show ?thesis
    by (simp add: classify_risk_critico_iff critical_banner_def)
qed

section \<open>Properties of the left joins\<close>

lemma traverse_skip_Inr:
  "traverse_skip f xs = Inr ys \<Longrightarrow>
     list_all2 (\<lambda>x y. f x = Inr (Some y)) (filter (\<lambda>x. f x \<noteq> Inr None) xs) ys"
  by (induction xs arbitrary: ys) (auto split: sum.splits option.splits)

lemma filter_key_distinct:
  "distinct (map key right) \<Longrightarrow>
     filter (\<lambda>r. key r = k) right = [] \<or> (\<exists>r. filter (\<lambda>r. key r = k) right = [r])"
proof (induction right)
  case Nil
  then show ?case by simp
next
  case (Cons a right)
  show ?case
  proof (cases "key a = k")
    case True
    from Cons.prems have "key a \<notin> key ` set right"
      by simp
    with True have "\<forall>r\<in>set right. key r \<noteq> k"
      by blast
    then have "filter (\<lambda>r. key r = k) right = []"
      by (simp add: filter_empty_conv)
    with True show ?thesis by simp
  next
    case False
    with Cons show ?thesis by simp
  qed
qed

lemma merge_left_distinct:
  assumes "distinct (map key right)"
  shows "merge_left key put left right =
           map (\<lambda>l. put l (join_lookup key right (res_grid_id l))) left"
proof (induction left)
  case Nil
  then show ?case by simp
next
  case (Cons l left)
  from filter_key_distinct [OF assms, of "res_grid_id l"]
  have "(case filter (\<lambda>r. key r = res_grid_id l) right of
           [] \<Rightarrow> [put l Missing]
         | matches \<Rightarrow> map (\<lambda>r. put l (Joined r)) matches) =
        [put l (join_lookup key right (res_grid_id l))]"
    by (auto simp: join_lookup_def)
  with Cons show ?case by simp
qed

lemma join_lookup_Missing:
  "(join_lookup key right gid = Missing) = (gid \<notin> key ` set right)"
proof (cases "filter (\<lambda>r. key r = gid) right")
  case Nil
  then show ?thesis
    by (force simp: join_lookup_def filter_empty_conv)
next
  case (Cons r rs)
  then have "r \<in> set (filter (\<lambda>r. key r = gid) right)"
    by simp
  then have "gid \<in> key ` set right"
    by auto
  with Cons show ?thesis
    by (simp add: join_lookup_def)
qed

lemma join_lookup_not_NoColumns:
  "join_lookup key right gid \<noteq> NoColumns"
  by (simp add: join_lookup_def split: list.splits)

section \<open>The grid ids of the tables\<close>

lemma subseq_distinct:
  "subseq xs ys \<Longrightarrow> distinct ys \<Longrightarrow> distinct xs"
  by (auto simp: subseq_conv_nths)

lemma attach_ids_fst:
  "attach_ids batch_ids results = Inr rows \<Longrightarrow> map fst rows = take (length results) batch_ids"
  by (induction batch_ids results arbitrary: rows rule: attach_ids.induct)
     (auto split: sum.splits)

lemma concat_batches_take:
  "concat (map (\<lambda>k. take n (drop (k * n) xs)) [0 ..< m]) = take (m * n) xs"
proof (induction m)
  case 0
  then show ?case by simp
next
  case (Suc m)
  have "take (m * n) xs @ take n (drop (m * n) xs) = take (m * n + n) xs"
    by (simp add: take_add)
  with Suc show ?case
    by (simp add: add.commute)
qed

lemma concat_batches:
  "0 < n \<Longrightarrow> concat (batches n xs) = xs"
proof -
  assume n: "0 < n"
  have "length xs \<le> ((length xs + n - 1) div n) * n"
  proof -
    have "length xs + n - 1 < ((length xs + n - 1) div n) * n + n"
      using n by (metis add.commute dividend_less_times_div mult.commute)
    then show ?thesis using n by linarith
  qed
  then show ?thesis
    unfolding batches_def concat_batches_take by simp
qed

lemma subseq_concat:
  "list_all2 subseq xss yss \<Longrightarrow> subseq (concat xss) (concat yss)"
  by (induction xss yss rule: list_all2_induct) (auto intro: list_emb_append_mono)

lemma climate_frame_ids:
  "map c_grid_id (climate_frame rows) = map fst rows"
  by (simp add: climate_frame_def case_prod_unfold)

lemma get_climate_data_ids:
  assumes "get_climate_data self fetch = Inr self'"
  shows "grids_gdf self' = grids_gdf self \<and> topo_data self' = topo_data self \<and>
         glaciers_gdf self' = glaciers_gdf self \<and>
         (\<exists>rows. climate_data self' = Some rows \<and>
            subseq (map c_grid_id rows) (map g_grid_id (grids_gdf self)))"
proof -
  let ?ids = "map g_grid_id (grids_gdf self)"
  let ?bs = "batches 50 ?ids"
  let ?f = "\<lambda>(k, batch_ids). attach_ids batch_ids (fetch k)"
  from assms obtain per_batch where
    t: "traverse ?f (zip [0 ..< length ?bs] ?bs) = Inr per_batch"
    and s: "self' = self \<lparr> climate_data := Some (climate_frame (concat per_batch)) \<rparr>"
    by (auto simp: get_climate_data_def Let_def split: sum.splits)
  from traverse_Inr [OF t]
  have "list_all2 (\<lambda>kb rows. ?f kb = Inr rows) (zip [0 ..< length ?bs] ?bs) per_batch" .
  then have "list_all2 (\<lambda>kb rows. subseq (map fst rows) (snd kb))
               (zip [0 ..< length ?bs] ?bs) per_batch"
  proof (rule list_all2_mono)
    fix kb rows assume "?f kb = Inr rows"
    then have "map fst rows = take (length (fetch (fst kb))) (snd kb)"
      by (cases kb) (simp add: attach_ids_fst)
    then show "subseq (map fst rows) (snd kb)"
      by (simp add: prefix_imp_subseq take_is_prefix)
  qed
  then have "list_all2 (\<lambda>b rows. subseq (map fst rows) b)
               (map snd (zip [0 ..< length ?bs] ?bs)) per_batch"
    unfolding list_all2_map1 .
  moreover have "map snd (zip [0 ..< length ?bs] ?bs) = ?bs"
    by simp
  ultimately have "list_all2 (\<lambda>b rows. subseq (map fst rows) b) ?bs per_batch"
    by simp
  then have "list_all2 subseq (map (map fst) per_batch) ?bs"
    by (simp add: list_all2_map1 list_all2_conv_all_nth)
  then have "subseq (concat (map (map fst) per_batch)) (concat ?bs)"
    by (rule subseq_concat)
  then have "subseq (map fst (concat per_batch)) ?ids"
    by (simp add: concat_batches map_concat)
  with s show ?thesis
    by (simp add: climate_frame_ids)
qed

lemma get_topography_ids:
  "\<exists>topo. topo_data (get_topography_for_grids self elevs) = Some topo \<and>
          subseq (map t_grid_id topo) (map g_grid_id (grids_gdf self))"
proof -
  have "map (\<lambda>(grid, elev). g_grid_id grid) (zip (grids_gdf self) elevs) =
        map g_grid_id (map fst (zip (grids_gdf self) elevs))"
    by (simp add: case_prod_unfold)
  also have "\<dots> = map g_grid_id (take (length elevs) (grids_gdf self))"
    by (simp add: map_fst_zip_take min_def take_all)
  finally have "map (\<lambda>(grid, elev). g_grid_id grid) (zip (grids_gdf self) elevs) =
        take (length elevs) (map g_grid_id (grids_gdf self))"
    by (simp add: take_map)
  then show ?thesis
    by (simp add: get_topography_for_grids_def case_prod_unfold comp_def
        prefix_imp_subseq take_is_prefix)
qed

section \<open>The merged result\<close>

lemma list_all2_ids:
  "list_all2 (\<lambda>x y. ky y = kx x \<and> Q x y) xs ys \<Longrightarrow> map ky ys = map kx xs"
  by (induction xs ys rule: list_all2_induct) auto

lemma merge_if_distinct:
  assumes "distinct (map key df)"
  shows "merge_if key put results df =
           (if df = [] then results
            else map (\<lambda>l. put l (join_lookup key df (res_grid_id l))) results)"
  by (simp add: merge_if_def merge_left_distinct [OF assms])

lemma melt_of_row_id:
  "melt_of_row self c = Inr m \<Longrightarrow> m_grid_id m = c_grid_id c"
  by (auto simp: melt_of_row_def Let_def split: sum.splits)

lemma calculate_melt_ids:
  assumes "calculate_melt self = Inr melt_df" and "climate_data self = Some rows" and "rows \<noteq> []"
  shows "\<exists>mrows. melt_df = Some mrows \<and> mrows \<noteq> [] \<and> map m_grid_id mrows = map c_grid_id rows"
proof -
  from assms obtain mrows where t: "traverse (melt_of_row self) rows = Inr mrows"
    and m: "melt_df = Some mrows"
    by (auto simp: calculate_melt_def split: sum.splits)
  from traverse_Inr [OF t] have all: "list_all2 (\<lambda>c m. melt_of_row self c = Inr m) rows mrows" .
  then have "list_all2 (\<lambda>c m. m_grid_id m = c_grid_id c \<and> True) rows mrows"
    by (rule list_all2_mono) (simp add: melt_of_row_id)
  then have "map m_grid_id mrows = map c_grid_id rows"
    by (rule list_all2_ids)
  moreover from all assms(3) have "mrows \<noteq> []"
    by (auto dest: list_all2_lengthD)
  ultimately show ?thesis using m by simp
qed

lemma calculate_runoff_no_climate:
  assumes "climate_data self = Some []" and "grids_gdf self \<noteq> []"
  shows "calculate_runoff self melt_df = Inl KeyError"
  using assms
  by (cases "grids_gdf self")
     (simp_all add: calculate_runoff_def runoff_of_grid_def frame_select_opt_def
        frame_select_def Let_def)

lemma calculate_flood_risk_no_runoff:
  assumes "melt_df = Some mrows" and "mrows \<noteq> []" and "grids_gdf self \<noteq> []"
  shows "calculate_flood_risk self melt_df [] = Inl KeyError"
  using assms
  by (cases "grids_gdf self")
     (simp_all add: calculate_flood_risk_def risk_of_grid_def frame_select_opt_def
        frame_select_def Let_def)

lemma has_climate_ids:
  assumes "climate_data self = Some rows"
  shows "has_climate self g = (g_grid_id g \<in> c_grid_id ` set rows)"
proof -
  have "(filter (\<lambda>c. c_grid_id c = g_grid_id g) rows \<noteq> []) = (g_grid_id g \<in> c_grid_id ` set rows)"
    by (force simp: filter_empty_conv)
  then show ?thesis
    using assms by (auto simp: has_climate_def unit_climate_def split: list.splits)
qed

lemma flood_of_row_id:
  "f_grid_id (flood_of_row row) = res_grid_id row"
  by (simp add: flood_of_row_def Let_def split: prod.splits)

lemma run_full_analysis_rows:
  assumes d: "distinct (map g_grid_id (grids_gdf self0))"
    and run: "run_full_analysis self0 all_elevations fetch = Inr results"
  shows "map res_grid_id results = map g_grid_id (grids_gdf self0) \<and>
         (\<forall>row\<in>set results.
            if res_climate row = Missing
            then res_melt row = Missing \<and> res_runoff row = Missing \<and> res_risk row = Missing
            else (\<exists>m r k. res_melt row = Joined m \<and> res_runoff row = Joined r \<and>
                    res_risk row = Joined k))"
proof -
  let ?s1 = "get_topography_for_grids self0 all_elevations"
  let ?grids = "grids_gdf self0"
  from run obtain self melt_df runoff_df risk_df proj_df where
    g: "get_climate_data ?s1 fetch = Inr self"
    and m: "calculate_melt self = Inr melt_df"
    and r: "calculate_runoff self melt_df = Inr runoff_df"
    and k: "calculate_flood_risk self melt_df runoff_df = Inr risk_df"
    and p: "calculate_projected_risk_3d self melt_df runoff_df = Inr proj_df"
    and res: "results = identify_flood_zones
                 (merge_if p_grid_id (\<lambda>l j. l \<lparr> res_proj := j \<rparr>)
                    (merge_results self melt_df runoff_df risk_df) proj_df)"
    by (auto simp: run_full_analysis_def split: sum.splits)
  have s1: "grids_gdf ?s1 = ?grids"
    by (simp add: get_topography_for_grids_def)
  from get_topography_ids [of self0 all_elevations] obtain topo where
    topo1: "topo_data ?s1 = Some topo"
    and topo_sub: "subseq (map t_grid_id topo) (map g_grid_id ?grids)"
    by blast
  from get_climate_data_ids [OF g] s1 topo1 obtain rows where
    grids: "grids_gdf self = ?grids"
    and topo: "topo_data self = Some topo"
    and rows: "climate_data self = Some rows"
    and rows_sub: "subseq (map c_grid_id rows) (map g_grid_id ?grids)"
    by auto
  show ?thesis
  proof (cases "?grids = []")
    case True
    then have "results = []"
      using res grids
      by (simp add: merge_results_def results_of_grids_def merge_if_def
          identify_flood_zones_def Let_def)
    with True show ?thesis by simp
  next
    case False
    have rows_ne: "rows \<noteq> []"
    proof
      assume "rows = []"
      with rows False grids have "calculate_runoff self melt_df = Inl KeyError"
        by (simp add: calculate_runoff_no_climate)
      with r show False by simp
    qed
    from calculate_melt_ids [OF m rows rows_ne] obtain mrows where
      melt: "melt_df = Some mrows" and mrows_ne: "mrows \<noteq> []"
      and mids: "map m_grid_id mrows = map c_grid_id rows"
      by blast
    have runoff_ne: "runoff_df \<noteq> []"
    proof
      assume "runoff_df = []"
      with melt mrows_ne False grids
      have "calculate_flood_risk self melt_df runoff_df = Inl KeyError"
        by (simp add: calculate_flood_risk_no_runoff)
      with k show False by simp
    qed
    let ?units = "filter (has_climate self) ?grids"
    from calculate_runoff_rows [OF rows rows_ne, of melt_df] r grids
    have rids: "map r_grid_id runoff_df = map g_grid_id ?units"
      by (auto dest: list_all2_ids)
    from calculate_flood_risk_rows [OF rows rows_ne melt mrows_ne runoff_ne] k grids
    have kids: "map k_grid_id risk_df = map g_grid_id ?units"
      by (auto dest: list_all2_ids)
    from calculate_projected_risk_3d_rows [OF rows rows_ne melt mrows_ne runoff_ne] p grids
    have pids: "map p_grid_id proj_df = map g_grid_id ?units"
      by (auto dest: list_all2_ids)
    from rids runoff_ne have units_ne: "?units \<noteq> []"
      by auto
    with kids pids have risk_ne: "risk_df \<noteq> []" and proj_ne: "proj_df \<noteq> []"
      by auto
    have d_units: "distinct (map g_grid_id ?units)"
      using d by (simp add: distinct_map_filter)
    have d_rows: "distinct (map c_grid_id rows)"
      using rows_sub d by (rule subseq_distinct)
    have d_topo: "distinct (map t_grid_id topo)"
      using topo_sub d by (rule subseq_distinct)
    have d_melt: "distinct (map m_grid_id mrows)"
      using d_rows mids by simp
    have d_runoff: "distinct (map r_grid_id runoff_df)"
      and d_risk: "distinct (map k_grid_id risk_df)"
      and d_proj: "distinct (map p_grid_id proj_df)"
      using d_units rids kids pids by simp_all
    let ?put = "\<lambda>g.
       \<lparr> res_grid = g \<lparr> g_glacier_area_km2 := None \<rparr>,
         res_climate = join_lookup c_grid_id rows (g_grid_id g),
         res_topo = (if topo = [] then NoColumns else join_lookup t_grid_id topo (g_grid_id g)),
         res_melt = join_lookup m_grid_id mrows (g_grid_id g),
         res_runoff = join_lookup r_grid_id runoff_df (g_grid_id g),
         res_risk = join_lookup k_grid_id risk_df (g_grid_id g),
         res_proj = join_lookup p_grid_id proj_df (g_grid_id g),
         res_flood = NoColumns \<rparr>"
    let ?merged = "merge_if p_grid_id (\<lambda>l j. l \<lparr> res_proj := j \<rparr>)
                    (merge_results self melt_df runoff_df risk_df) proj_df"
    have merged: "?merged = map ?put ?grids"
      using rows_ne mrows_ne runoff_ne risk_ne proj_ne
      by (simp add: merge_results_def Let_def grids rows topo melt
          merge_if_distinct [OF d_rows] merge_if_distinct [OF d_topo]
          merge_if_distinct [OF d_melt] merge_if_distinct [OF d_runoff]
          merge_if_distinct [OF d_risk] merge_if_distinct [OF d_proj]
          results_of_grids_def res_grid_id_def put_melt_def comp_def)
    have merged_ids: "map res_grid_id ?merged = map g_grid_id ?grids"
      unfolding merged by (simp add: res_grid_id_def comp_def)
    have "distinct (map f_grid_id (map flood_of_row ?merged))"
      using d merged_ids by (simp add: comp_def flood_of_row_id)
    from merge_left_distinct [OF this]
    have results: "results =
        map (\<lambda>l. l \<lparr> res_flood := join_lookup f_grid_id (map flood_of_row ?merged)
                                      (res_grid_id l) \<rparr>) ?merged"
      using res False by (simp add: identify_flood_zones_def merged)
    have ids: "map res_grid_id results = map g_grid_id ?grids"
    proof -
      have "map res_grid_id results = map res_grid_id ?merged"
        by (subst results) (simp add: res_grid_id_def)
      with merged_ids show ?thesis by simp
    qed
    have cells: "if res_climate row = Missing
            then res_melt row = Missing \<and> res_runoff row = Missing \<and> res_risk row = Missing
            else (\<exists>m r k. res_melt row = Joined m \<and> res_runoff row = Joined r \<and>
                    res_risk row = Joined k)"
      if "row \<in> set results" for row
    proof -
      from that obtain g where gin: "g \<in> set ?grids"
        and c: "res_climate row = join_lookup c_grid_id rows (g_grid_id g)"
        and me: "res_melt row = join_lookup m_grid_id mrows (g_grid_id g)"
        and ru: "res_runoff row = join_lookup r_grid_id runoff_df (g_grid_id g)"
        and ri: "res_risk row = join_lookup k_grid_id risk_df (g_grid_id g)"
        unfolding results merged by auto
      have in_units: "(g_grid_id g \<in> set (map g_grid_id ?units)) = (g_grid_id g \<in> c_grid_id ` set rows)"
        using gin has_climate_ids [OF rows] by (auto simp: grids)
      have sets: "m_grid_id ` set mrows = c_grid_id ` set rows"
        "(g_grid_id g \<in> r_grid_id ` set runoff_df) = (g_grid_id g \<in> c_grid_id ` set rows)"
        "(g_grid_id g \<in> k_grid_id ` set risk_df) = (g_grid_id g \<in> c_grid_id ` set rows)"
        using mids rids kids in_units
        by (metis set_map)+
      show ?thesis
      proof (cases "g_grid_id g \<in> c_grid_id ` set rows")
        case True
        with sets have "join_lookup m_grid_id mrows (g_grid_id g) \<noteq> Missing"
          "join_lookup r_grid_id runoff_df (g_grid_id g) \<noteq> Missing"
          "join_lookup k_grid_id risk_df (g_grid_id g) \<noteq> Missing"
          "join_lookup c_grid_id rows (g_grid_id g) \<noteq> Missing"
          by (simp_all add: join_lookup_Missing)
        then show ?thesis
          unfolding c me ru ri
          by (auto simp: join_lookup_def split: list.splits)
      next
        case False
        with sets show ?thesis
          unfolding c me ru ri by (simp add: join_lookup_Missing)
      qed
    qed
    from ids cells show ?thesis by blast
  qed
qed

section \<open>The analysis returns\<close>

lemma subseq_subset:
  "subseq xs ys \<Longrightarrow> set xs \<subseteq> set ys"
  by (auto simp: subseq_conv_nths dest: in_set_nthsD)

lemma attach_ids_total:
  "length results \<le> length batch_ids \<Longrightarrow>
     \<exists>rows. attach_ids batch_ids results = Inr rows \<and> length rows = length results"
  by (induction batch_ids results rule: attach_ids.induct) auto

lemma batches_nonempty:
  "xs \<noteq> [] \<Longrightarrow> \<exists>bs. batches 50 xs = take 50 xs # bs"
proof -
  assume "xs \<noteq> []"
  then have "0 < (length xs + 50 - 1) div 50"
    by (cases xs) simp_all
  then obtain m where "(length xs + 50 - 1) div 50 = Suc m"
    by (cases "(length xs + 50 - 1) div 50") simp_all
  then show ?thesis
    by (simp add: batches_def upt_conv_Cons del: upt_Suc)
qed

lemma get_climate_data_total:
  assumes "\<forall>k<length (batches 50 (map g_grid_id (grids_gdf self))).
             length (fetch k) \<le> length (batches 50 (map g_grid_id (grids_gdf self)) ! k)"
  shows "\<exists>self'. get_climate_data self fetch = Inr self'"
proof -
  let ?bs = "batches 50 (map g_grid_id (grids_gdf self))"
  let ?f = "\<lambda>(k, batch_ids). attach_ids batch_ids (fetch k)"
  have "\<forall>x\<in>set (zip [0 ..< length ?bs] ?bs). \<forall>e. ?f x \<noteq> Inl e"
  proof (intro ballI allI)
    fix x e assume "x \<in> set (zip [0 ..< length ?bs] ?bs)"
    then obtain k where "k < length ?bs" and x: "x = (k, ?bs ! k)"
      by (auto simp: in_set_zip)
    with assms have "length (fetch k) \<le> length (?bs ! k)"
      by simp
    from attach_ids_total [OF this] x show "?f x \<noteq> Inl e"
      by auto
  qed
  then obtain per_batch where "traverse ?f (zip [0 ..< length ?bs] ?bs) = Inr per_batch"
    using traverse_total by blast
  then show ?thesis
    by (simp add: get_climate_data_def Let_def)
qed

lemma get_climate_data_nonempty:
  assumes "get_climate_data self fetch = Inr self'"
    and "grids_gdf self \<noteq> []" and "fetch 0 \<noteq> []"
  shows "\<exists>rows. climate_data self' = Some rows \<and> rows \<noteq> []"
proof -
  let ?ids = "map g_grid_id (grids_gdf self)"
  let ?f = "\<lambda>(k, batch_ids). attach_ids batch_ids (fetch k)"
  from assms(2) obtain bs where bs: "batches 50 ?ids = take 50 ?ids # bs"
    using batches_nonempty [of ?ids] by auto
  have z: "zip [0 ..< length (batches 50 ?ids)] (batches 50 ?ids) =
             (0, take 50 ?ids) # zip [1 ..< Suc (length bs)] bs"
    by (simp add: bs upt_conv_Cons del: upt_Suc)
  from assms(1) obtain per_batch where
    t: "traverse ?f (zip [0 ..< length (batches 50 ?ids)] (batches 50 ?ids)) = Inr per_batch"
    and s: "self' = self \<lparr> climate_data := Some (climate_frame (concat per_batch)) \<rparr>"
    by (auto simp: get_climate_data_def Let_def split: sum.splits)
  from t obtain rows0 rest where a: "attach_ids (take 50 ?ids) (fetch 0) = Inr rows0"
    and pb: "per_batch = rows0 # rest"
    unfolding z by (auto split: sum.splits)
  from attach_ids_fst [OF a] have "map fst rows0 = take (length (fetch 0)) (take 50 ?ids)" .
  with assms(2,3) have "rows0 \<noteq> []"
    by (cases "fetch 0"; cases "grids_gdf self") auto
  with pb s show ?thesis
    by (simp add: climate_frame_def)
qed

lemma run_full_analysis_total:
  assumes fits: "\<forall>k<length (batches 50 (map g_grid_id (grids_gdf self0))).
             length (fetch k) \<le> length (batches 50 (map g_grid_id (grids_gdf self0)) ! k)"
    and first: "fetch 0 \<noteq> []"
  shows "\<exists>results. run_full_analysis self0 all_elevations fetch = Inr results"
proof -
  let ?s1 = "get_topography_for_grids self0 all_elevations"
  let ?grids = "grids_gdf self0"
  have s1: "grids_gdf ?s1 = ?grids"
    by (simp add: get_topography_for_grids_def)
  from get_climate_data_total [of ?s1 fetch] fits s1
  obtain self where g: "get_climate_data ?s1 fetch = Inr self"
    by auto
  from get_climate_data_ids [OF g] s1 obtain rows where
    grids: "grids_gdf self = ?grids"
    and rows: "climate_data self = Some rows"
    and rows_sub: "subseq (map c_grid_id rows) (map g_grid_id ?grids)"
    by auto
  show ?thesis
  proof (cases "?grids = []")
    case True
    with rows_sub have "rows = []"
      by (auto dest: list_emb_Nil2)
    with True rows grids g show ?thesis
      by (simp add: run_full_analysis_def calculate_melt_def calculate_runoff_def
          calculate_flood_risk_def calculate_projected_risk_3d_def)
  next
    case False
    from get_climate_data_nonempty [OF g] False s1 first rows have rows_ne: "rows \<noteq> []"
      by auto
    from subseq_subset [OF rows_sub]
    have inbase: "\<forall>c\<in>set rows. c_grid_id c \<in> g_grid_id ` set (grids_gdf self)"
      by (auto simp: grids)
    from calculate_melt_rows [OF rows rows_ne inbase] obtain mrows where
      m: "calculate_melt self = Inr (Some mrows)"
      and mlen: "length rows = length mrows"
      by (auto dest: list_all2_lengthD)
    from mlen rows_ne have mrows_ne: "mrows \<noteq> []"
      by auto
    from calculate_runoff_rows [OF rows rows_ne, of "Some mrows"] obtain runoff_df where
      r: "calculate_runoff self (Some mrows) = Inr runoff_df"
      and rlen: "length (filter (has_climate self) (grids_gdf self)) = length runoff_df"
      by (auto dest: list_all2_lengthD)
    from rows_ne obtain c where c: "c \<in> set rows"
      by (cases rows) auto
    with inbase obtain g0 where "g0 \<in> set (grids_gdf self)" and "g_grid_id g0 = c_grid_id c"
      by auto
    with c have "g0 \<in> set (filter (has_climate self) (grids_gdf self))"
      by (simp add: has_climate_ids [OF rows])
    then have "0 < length (filter (has_climate self) (grids_gdf self))"
      by (rule length_pos_if_in_set)
    with rlen have runoff_ne: "runoff_df \<noteq> []"
      by simp
    from calculate_flood_risk_rows [OF rows rows_ne refl mrows_ne runoff_ne] obtain risk_df where
      k: "calculate_flood_risk self (Some mrows) runoff_df = Inr risk_df"
      by blast
    from calculate_projected_risk_3d_rows [OF rows rows_ne refl mrows_ne runoff_ne]
    obtain proj_df where
      p: "calculate_projected_risk_3d self (Some mrows) runoff_df = Inr proj_df"
      by blast
    from g m r k p show ?thesis
      by (simp add: run_full_analysis_def)
  qed
qed

text \<open>
  The left joins keep the rows of the base table: when its grid ids are distinct, every
  grid id of the base table is in the merged result exactly once, in the order of the
  base table. The columns risk_score, melt_rate_mm_day and runoff_m3s of the result hold
  numbers for a unit with a climate row; for a unit without one, which no later stage
  has either, the joins leave the missing value NaN and nothing fills it. The analysis
  returns a result when the forecast service answers no batch with more records than
  locations and the first batch with at least one record.
\<close>

theorem run_full_analysis_join_integrity:
  assumes "distinct (map g_grid_id (grids_gdf self0))"
  shows "(run_full_analysis self0 all_elevations fetch = Inr results \<longrightarrow>
            map res_grid_id results = map g_grid_id (grids_gdf self0) \<and>
            distinct (map res_grid_id results) \<and>
            (\<forall>row\<in>set results.
               if res_climate row = Missing
               then named_columns row = (res_grid_id row, Some NaN, Some NaN, Some NaN)
               else (\<exists>a b c. named_columns row =
                       (res_grid_id row, Some (Num a), Some (Num b), Some (Num c))))) \<and>
         ((\<forall>k<length (batches 50 (map g_grid_id (grids_gdf self0))).
             length (fetch k) \<le> length (batches 50 (map g_grid_id (grids_gdf self0)) ! k)) \<and>
          fetch 0 \<noteq> [] \<longrightarrow>
            (\<exists>res. run_full_analysis self0 all_elevations fetch = Inr res))"
proof (intro conjI impI)
  assume run: "run_full_analysis self0 all_elevations fetch = Inr results"
  from run_full_analysis_rows [OF assms run]
  have ids: "map res_grid_id results = map g_grid_id (grids_gdf self0)"
    and cells: "\<forall>row\<in>set results.
            if res_climate row = Missing
            then res_melt row = Missing \<and> res_runoff row = Missing \<and> res_risk row = Missing
            else (\<exists>m r k. res_melt row = Joined m \<and> res_runoff row = Joined r \<and>
                    res_risk row = Joined k)"
    by blast+
  show "map res_grid_id results = map g_grid_id (grids_gdf self0)"
    by (rule ids)
  show "distinct (map res_grid_id results)"
    using ids assms by simp
  show "\<forall>row\<in>set results.
               if res_climate row = Missing
               then named_columns row = (res_grid_id row, Some NaN, Some NaN, Some NaN)
               else (\<exists>a b c. named_columns row =
                       (res_grid_id row, Some (Num a), Some (Num b), Some (Num c)))"
  proof
    fix row assume "row \<in> set results"
    with cells show "if res_climate row = Missing
               then named_columns row = (res_grid_id row, Some NaN, Some NaN, Some NaN)
               else (\<exists>a b c. named_columns row =
                       (res_grid_id row, Some (Num a), Some (Num b), Some (Num c)))"
      by (fastforce simp: named_columns_def result_column_def)
  qed
next
  assume "(\<forall>k<length (batches 50 (map g_grid_id (grids_gdf self0))).
             length (fetch k) \<le> length (batches 50 (map g_grid_id (grids_gdf self0)) ! k)) \<and>
          fetch 0 \<noteq> []"
  then show "\<exists>res. run_full_analysis self0 all_elevations fetch = Inr res"
    using run_full_analysis_total by blast
qed

theorem run_full_analysis_join_integrity_witness:
  "distinct (map g_grid_id (grids_gdf example_base)) \<and>
   (\<exists>results. run_full_analysis example_base [100, 200] example_fetch = Inr results \<and>
      map res_grid_id results = [0, 1] \<and>
      map (\<lambda>row. res_climate row = Missing) results = [False, True] \<and>
      named_columns (results ! 1) = (1, Some NaN, Some NaN, Some NaN))"
proof -
  have d: "distinct (map g_grid_id (grids_gdf example_base))"
    by (simp add: example_base_def)
  have ids: "map g_grid_id (grids_gdf example_base) = [0, 1]"
    by (simp add: example_base_def)
  have bs: "batches 50 [0, 1 :: int] = [[0, 1]]"
    by code_simp
  have fits: "(\<forall>k<length (batches 50 (map g_grid_id (grids_gdf example_base))).
             length (example_fetch k)
               \<le> length (batches 50 (map g_grid_id (grids_gdf example_base)) ! k)) \<and>
          example_fetch 0 \<noteq> []"
    by (simp add: ids bs example_fetch_def)
  have ev: "map_sum id (map (\<lambda>row. res_climate row = Missing))
              (run_full_analysis example_base [100, 200] example_fetch) = Inr [False, True]"
    by code_simp
  note th = run_full_analysis_join_integrity [OF d, of "[100, 200]" example_fetch]
  from th fits obtain results where
    run: "run_full_analysis example_base [100, 200] example_fetch = Inr results"
    by blast
  from th [of results] run
  have rids: "map res_grid_id results = [0, 1]"
    and cells: "\<forall>row\<in>set results.
               if res_climate row = Missing
               then named_columns row = (res_grid_id row, Some NaN, Some NaN, Some NaN)
               else (\<exists>a b c. named_columns row =
                       (res_grid_id row, Some (Num a), Some (Num b), Some (Num c)))"
    by (simp_all add: ids)
  from ev run have miss: "map (\<lambda>row. res_climate row = Missing) results = [False, True]"
    by simp
  then obtain r0 r1 where rs: "results = [r0, r1]" and m1: "res_climate r1 = Missing"
    by (auto simp: map_eq_Cons_conv)
  from rids rs have "res_grid_id r1 = 1"
    by simp
  with cells rs m1 have "named_columns (results ! 1) = (1, Some NaN, Some NaN, Some NaN)"
    by simp
  with run rids miss
  have "\<exists>results. run_full_analysis example_base [100, 200] example_fetch = Inr results \<and>
      map res_grid_id results = [0, 1] \<and>
      map (\<lambda>row. res_climate row = Missing) results = [False, True] \<and>
      named_columns (results ! 1) = (1, Some NaN, Some NaN, Some NaN)"
    by (intro exI [of _ results]) simp
  with d show ?thesis
    by simp
qed

text \<open>
  Claim C2. After the merges every grid id of the base table is in the result exactly
  once, and for a grid id that an upstream stage does not have the columns risk_score,
  melt_rate_mm_day and runoff_m3s of the result hold a defined default, not a missing
  value. With two units and a forecast service that answers for one, the result has both
  units once, and the three columns of the second unit hold NaN, the missing value of
  pandas, and not a default.
\<close>

theorem run_full_analysis_missing_defaults:
  "map_sum id (map named_columns) (run_full_analysis example_base [100, 200] example_fetch) =
     Inr [(0, Some (Num 0.4428448), Some (Num 42.8), Some (Num 1.112)),
          (1, Some NaN, Some NaN, Some NaN)]"
  by code_simp

section \<open>The fallback climate record\<close>

lemma process_meteo_json_keys:
  "map fst (process_meteo_json data) =
     (if process_meteo_json data = empty_climate_dict
      then filter (\<lambda>k. k \<noteq> ''elevation'') climate_schema
      else climate_schema)"
  by (simp add: process_meteo_json_def empty_climate_dict_def climate_schema_def Let_def
      split: payload.splits block.splits)

lemma process_meteo_json_fallback:
  "process_meteo_json NotAnObject = empty_climate_dict"
  "process_meteo_json (Payload NoBlock daily elev) = empty_climate_dict"
  "process_meteo_json (Payload (NotDict truth) daily elev) = empty_climate_dict"
  "process_meteo_json (Payload (Block []) daily elev) = empty_climate_dict"
  "process_meteo_json (Payload hourly (NotDict truth) elev) = empty_climate_dict"
  by (simp_all add: process_meteo_json_def split: block.splits)

lemma attach_ids_map:
  "attach_ids (map fst units) (map f units) = Inr (map (\<lambda>u. (fst u, f u)) units)"
  by (induction units) simp_all

text \<open>
  Claim C8. When the fetch of a batch fails, or the document of a location cannot be
  parsed or has no hourly block, the units still get a climate record, and none is left
  out of the climate table: this part holds. Every field of the climate record is in
  it, the elevation of the model grid too, with the value zero or the empty list: the
  fallback record has the thirteen other fields, all zero or empty, and no field
  elevation, which the record of a parsed document has, zero when the document has none.
\<close>

theorem fallback_record_lacks_elevation:
  "fetch_openmeteo_batch lats lons RequestFailed = replicate (length lats) empty_climate_dict \<and>
   attach_ids (map fst units)
       (fetch_openmeteo_batch (map (fst \<circ> snd) units) (map (snd \<circ> snd) units) RequestFailed) =
     Inr (map (\<lambda>u. (fst u, empty_climate_dict)) units) \<and>
   process_meteo_json NotAnObject = empty_climate_dict \<and>
   process_meteo_json (Payload NoBlock daily elev) = empty_climate_dict \<and>
   process_meteo_json (Payload (NotDict truth) daily elev) = empty_climate_dict \<and>
   process_meteo_json (Payload (Block []) daily elev) = empty_climate_dict \<and>
   process_meteo_json (Payload hourly (NotDict truth) elev) = empty_climate_dict \<and>
   list_all (\<lambda>(key, v). v = PNum (Num 0) \<or> v = PList []) empty_climate_dict \<and>
   map fst empty_climate_dict = filter (\<lambda>key. key \<noteq> ''elevation'') climate_schema \<and>
   map_of empty_climate_dict ''elevation'' = None \<and>
   ''elevation'' \<in> set climate_schema \<and>
   map fst (process_meteo_json (Payload (Block (item # items)) (Block d) elev)) = climate_schema \<and>
   map_of (process_meteo_json (Payload (Block (item # items)) (Block d) Absent)) ''elevation'' =
     Some (PNum (Num 0))"
proof -
  have fetch: "fetch_openmeteo_batch xs ys RequestFailed = replicate (length xs) empty_climate_dict"
    for xs ys :: "real list"
    by (simp add: fetch_openmeteo_batch_def process_meteo_json_fallback map_replicate_const)
  have "attach_ids (map fst units)
       (fetch_openmeteo_batch (map (fst \<circ> snd) units) (map (snd \<circ> snd) units) RequestFailed) =
     attach_ids (map fst units) (map (\<lambda>u. empty_climate_dict) units)"
    by (simp add: fetch map_replicate_const)
  then have attach: "attach_ids (map fst units)
       (fetch_openmeteo_batch (map (fst \<circ> snd) units) (map (snd \<circ> snd) units) RequestFailed) =
     Inr (map (\<lambda>u. (fst u, empty_climate_dict)) units)"
    by (simp add: attach_ids_map)
  have empty: "list_all (\<lambda>(key, v). v = PNum (Num 0) \<or> v = PList []) empty_climate_dict"
    "map fst empty_climate_dict = filter (\<lambda>key. key \<noteq> ''elevation'') climate_schema"
    "map_of empty_climate_dict ''elevation'' = None"
    "''elevation'' \<in> set climate_schema"
    by (simp_all add: empty_climate_dict_def climate_schema_def)
  have parsed:
    "map fst (process_meteo_json (Payload (Block (item # items)) (Block d) elev)) = climate_schema"
    "map_of (process_meteo_json (Payload (Block (item # items)) (Block d) Absent)) ''elevation'' =
       Some (PNum (Num 0))"
    by (simp_all add: process_meteo_json_def climate_schema_def elevation_value_def Let_def)
  from fetch [of lats lons] attach process_meteo_json_fallback empty parsed
  show ?thesis by simp
qed

section \<open>Properties of the HRU generator\<close>

lemma fold_stats_lookup:
  "fold stats_update subs m code =
     (case filter (\<lambda>s. COD_SUBC s = code) subs of
        [] \<Rightarrow> m code
      | ys \<Rightarrow> Some (stats_of (last ys)))"
proof (induction subs arbitrary: m)
  case Nil
  then show ?case by simp
next
  case (Cons a subs)
  have "fold stats_update (a # subs) m code = fold stats_update subs (stats_update a m) code"
    by simp
  also have "\<dots> = (case filter (\<lambda>s. COD_SUBC s = code) subs of
        [] \<Rightarrow> stats_update a m code
      | ys \<Rightarrow> Some (stats_of (last ys)))"
    by (rule Cons.IH)
  also have "\<dots> = (case filter (\<lambda>s. COD_SUBC s = code) (a # subs) of
        [] \<Rightarrow> m code
      | ys \<Rightarrow> Some (stats_of (last ys)))"
    by (simp add: stats_update_def split: list.splits)
  finally show ?case .
qed

lemma stats_unique_code:
  "filter (\<lambda>s. COD_SUBC s = COD_SUBC sub) subs = [sub] \<Longrightarrow>
     calculate_glacier_stats subs (COD_SUBC sub) = Some (stats_of sub)"
  by (simp add: calculate_glacier_stats_def fold_stats_lookup)

lemma band_name_Inr:
  "i < 2 \<Longrightarrow> \<exists>name. band_name 2 i = Inr name" "i < 3 \<Longrightarrow> \<exists>name. band_name 3 i = Inr name"
  by (simp_all add: band_name_def band_names_def)

lemma band_unit_cases:
  assumes "n = 2 \<or> n = 3" and "i < n"
  shows "if band_meets (geometry sub) n i
         then \<exists>h. band_unit sub n start why i = Inr (Some h) \<and>
                subcuenca_cod h = COD_SUBC sub \<and> n_divisions h = n \<and> hru_id h = start + int i
         else band_unit sub n start why i = Inr None"
  using assms band_name_Inr [of i]
  by (auto simp: band_unit_def band_meets_def Let_def)

lemma divide_subcuenca_bands:
  assumes "n = 2 \<or> n = 3"
  shows "\<exists>units. divide_subcuenca sub n start why = Inr units \<and>
           list_all2 (\<lambda>i h. subcuenca_cod h = COD_SUBC sub \<and> n_divisions h = n \<and>
                          hru_id h = start + int i)
             (filter (band_meets (geometry sub) n) [0 ..< n]) units"
proof -
  have "\<exists>units. traverse_skip (band_unit sub n start why) [0 ..< n] = Inr units \<and>
           list_all2 (\<lambda>i h. subcuenca_cod h = COD_SUBC sub \<and> n_divisions h = n \<and>
                          hru_id h = start + int i)
             (filter (band_meets (geometry sub) n) [0 ..< n]) units"
  proof (rule traverse_skip_filter)
    fix i assume "i \<in> set [0 ..< n]"
    then have "i < n" by simp
    from band_unit_cases [OF assms this, of sub start why]
    show "if band_meets (geometry sub) n i
          then \<exists>y. band_unit sub n start why i = Inr (Some y) \<and>
                 (subcuenca_cod y = COD_SUBC sub \<and> n_divisions y = n \<and>
                  hru_id y = start + int i)
          else band_unit sub n start why i = Inr None" .
  qed
  with assms show ?thesis
    by (auto simp: divide_subcuenca_def)
qed

lemma divide_subcuenca_rows:
  assumes "n \<in> {1, 2, 3}"
  shows "\<exists>units. divide_subcuenca sub n start why = Inr units \<and>
           (\<forall>h\<in>set units. subcuenca_cod h = COD_SUBC sub \<and> n_divisions h = n \<and>
               start \<le> hru_id h \<and> hru_id h < start + int n) \<and>
           sorted_wrt (<) (map hru_id units) \<and>
           length units = (if n = 1 then 1 else length (filter (band_meets (geometry sub) n) [0 ..< n]))"
proof (cases "n = 1")
  case True
  then show ?thesis
    by (simp add: divide_subcuenca_def)
next
  case False
  with assms have n: "n = 2 \<or> n = 3"
    by auto
  from divide_subcuenca_bands [OF n, of sub start why] obtain units where
    d: "divide_subcuenca sub n start why = Inr units"
    and all: "list_all2 (\<lambda>i h. subcuenca_cod h = COD_SUBC sub \<and> n_divisions h = n \<and>
                          hru_id h = start + int i)
             (filter (band_meets (geometry sub) n) [0 ..< n]) units"
    by blast
  let ?is = "filter (band_meets (geometry sub) n) [0 ..< n]"
  from all have len: "length units = length ?is"
    by (auto dest: list_all2_lengthD)
  from all have "list_all2 (\<lambda>i h. hru_id h = start + int i \<and> True) ?is units"
    by (rule list_all2_mono) simp
  then have ids: "map hru_id units = map (\<lambda>i. start + int i) ?is"
    by (rule list_all2_ids)
  have "sorted_wrt (<) ?is"
    by (rule sorted_wrt_filter) (simp add: sorted_wrt_upt flip: strict_sorted_iff)
  then have sorted: "sorted_wrt (<) (map hru_id units)"
    unfolding ids by (simp add: sorted_wrt_map)
  have rows: "\<forall>h\<in>set units. subcuenca_cod h = COD_SUBC sub \<and> n_divisions h = n \<and>
               start \<le> hru_id h \<and> hru_id h < start + int n"
  proof
    fix h assume "h \<in> set units"
    then obtain j where j: "j < length units" and h: "h = units ! j"
      by (auto simp: in_set_conv_nth)
    from j len have "j < length ?is"
      by simp
    then have "?is ! j \<in> set ?is"
      by (rule nth_mem)
    then have bound: "?is ! j < n"
      by simp
    from all j h have "subcuenca_cod h = COD_SUBC sub \<and> n_divisions h = n \<and>
        hru_id h = start + int (?is ! j)"
      by (simp add: list_all2_conv_all_nth)
    with bound show "subcuenca_cod h = COD_SUBC sub \<and> n_divisions h = n \<and>
               start \<le> hru_id h \<and> hru_id h < start + int n"
      by simp
  qed
  from d rows sorted len False show ?thesis
    by simp
qed

lemma decide_division_range:
  "fst (decide_division small medium threshold area stats) \<in> {1, 2, 3}"
  by (simp add: decide_division_def)

lemma generate_loop_rows:
  "\<exists>hrus. generate_loop small medium threshold stats subs start = Inr hrus \<and>
          (\<forall>h\<in>set hrus. start \<le> hru_id h \<and> subcuenca_cod h \<in> COD_SUBC ` set subs) \<and>
          sorted_wrt (<) (map hru_id hrus)"
proof (induction subs arbitrary: start)
  case Nil
  then show ?case by simp
next
  case (Cons sub subs)
  let ?stats = "case stats (COD_SUBC sub) of
                  Some s \<Rightarrow> s
                | None \<Rightarrow> \<lparr> count = 0, stats_area_km2 = 0, density = 0 \<rparr>"
  obtain n why where dec: "decide_division small medium threshold (sub_area_km2 sub) ?stats = (n, why)"
    by (cases "decide_division small medium threshold (sub_area_km2 sub) ?stats") auto
  with decide_division_range [of small medium threshold "sub_area_km2 sub" ?stats]
  have n: "n \<in> {1, 2, 3}"
    by simp
  from divide_subcuenca_rows [OF n, of sub start why] obtain units where
    d: "divide_subcuenca sub n start why = Inr units"
    and rows: "\<forall>h\<in>set units. subcuenca_cod h = COD_SUBC sub \<and> n_divisions h = n \<and>
               start \<le> hru_id h \<and> hru_id h < start + int n"
    and sorted: "sorted_wrt (<) (map hru_id units)"
    by blast
  from Cons.IH [of "start + int n"] obtain hrus where
    g: "generate_loop small medium threshold stats subs (start + int n) = Inr hrus"
    and grows: "\<forall>h\<in>set hrus. start + int n \<le> hru_id h \<and> subcuenca_cod h \<in> COD_SUBC ` set subs"
    and gsorted: "sorted_wrt (<) (map hru_id hrus)"
    by blast
  have res: "generate_loop small medium threshold stats (sub # subs) start = Inr (units @ hrus)"
    by (simp add: dec d g)
  have "\<forall>h\<in>set (units @ hrus). start \<le> hru_id h \<and> subcuenca_cod h \<in> COD_SUBC ` set (sub # subs)"
    using rows grows by fastforce
  moreover have "sorted_wrt (<) (map hru_id (units @ hrus))"
    using rows grows sorted gsorted by (fastforce simp: sorted_wrt_append)
  ultimately show ?case
    using res by blast
qed

text \<open>The unit ids that generate_hrus gives are distinct: the key of the base table.\<close>

lemma generate_hrus_body_distinct:
  assumes "generate_hrus_body subs passed = Inr hrus"
  shows "distinct (map hru_id hrus)"
proof -
  let ?small = "arg_value passed ''small_km2'' 50"
  let ?medium = "arg_value passed ''medium_km2'' 200"
  let ?dens = "arg_value passed ''glacier_density_threshold'' 5"
  from generate_loop_rows [of ?small ?medium ?dens "calculate_glacier_stats subs" subs 0]
  obtain rows where g: "generate_loop ?small ?medium ?dens (calculate_glacier_stats subs) subs 0 = Inr rows"
    and sorted: "sorted_wrt (<) (map hru_id rows)"
    by blast
  from assms g have "hrus = rows"
    by (simp add: generate_hrus_body_def Let_def split: if_splits)
  with sorted show ?thesis
    using strict_sorted_iff by blast
qed

lemma generate_loop_units:
  assumes "filter (\<lambda>s. COD_SUBC s = COD_SUBC sub) subs = [sub]"
  shows "\<exists>hrus start. generate_loop small medium threshold stats subs start0 = Inr hrus \<and>
           divide_subcuenca sub
             (fst (decide_division small medium threshold (sub_area_km2 sub)
                     (case stats (COD_SUBC sub) of
                        Some s \<Rightarrow> s
                      | None \<Rightarrow> \<lparr> count = 0, stats_area_km2 = 0, density = 0 \<rparr>)))
             start
             (snd (decide_division small medium threshold (sub_area_km2 sub)
                     (case stats (COD_SUBC sub) of
                        Some s \<Rightarrow> s
                      | None \<Rightarrow> \<lparr> count = 0, stats_area_km2 = 0, density = 0 \<rparr>)))
           = Inr (units_of hrus sub)"
  using assms
proof (induction subs arbitrary: start0)
  case Nil
  then show ?case by simp
next
  case (Cons s subs)
  let ?stats = "case stats (COD_SUBC s) of
                  Some s \<Rightarrow> s
                | None \<Rightarrow> \<lparr> count = 0, stats_area_km2 = 0, density = 0 \<rparr>"
  obtain n why where dec: "decide_division small medium threshold (sub_area_km2 s) ?stats = (n, why)"
    by (cases "decide_division small medium threshold (sub_area_km2 s) ?stats") auto
  with decide_division_range [of small medium threshold "sub_area_km2 s" ?stats]
  have n: "n \<in> {1, 2, 3}"
    by simp
  from divide_subcuenca_rows [OF n, of s start0 why] obtain units where
    d: "divide_subcuenca s n start0 why = Inr units"
    and rows: "\<forall>h\<in>set units. subcuenca_cod h = COD_SUBC s"
    by blast
  show ?case
  proof (cases "COD_SUBC s = COD_SUBC sub")
    case True
    with Cons.prems have s: "s = sub" and rest: "filter (\<lambda>s. COD_SUBC s = COD_SUBC sub) subs = []"
      by simp_all
    from generate_loop_rows [of small medium threshold stats subs "start0 + int n"]
    obtain hrus where
      g: "generate_loop small medium threshold stats subs (start0 + int n) = Inr hrus"
      and codes: "\<forall>h\<in>set hrus. subcuenca_cod h \<in> COD_SUBC ` set subs"
      by blast
    from rest have "\<forall>s\<in>set subs. COD_SUBC s \<noteq> COD_SUBC sub"
      by (simp add: filter_empty_conv)
    with codes have none: "filter (\<lambda>h. subcuenca_cod h = COD_SUBC sub) hrus = []"
      by (auto simp: filter_empty_conv)
    from rows s have all: "filter (\<lambda>h. subcuenca_cod h = COD_SUBC sub) units = units"
      by (simp add: filter_id_conv)
    have "generate_loop small medium threshold stats (s # subs) start0 = Inr (units @ hrus)"
      by (simp add: dec d g)
    moreover have "units_of (units @ hrus) sub = units"
      by (simp add: units_of_def none all)
    ultimately show ?thesis
      using d dec s by (intro exI [of _ "units @ hrus"] exI [of _ start0]) simp
  next
    case False
    with Cons.prems have rest: "filter (\<lambda>s. COD_SUBC s = COD_SUBC sub) subs = [sub]"
      by simp
    from Cons.IH [OF rest, of "start0 + int n"] obtain hrus start where
      g: "generate_loop small medium threshold stats subs (start0 + int n) = Inr hrus"
      and u: "divide_subcuenca sub
             (fst (decide_division small medium threshold (sub_area_km2 sub)
                     (case stats (COD_SUBC sub) of
                        Some s \<Rightarrow> s
                      | None \<Rightarrow> \<lparr> count = 0, stats_area_km2 = 0, density = 0 \<rparr>)))
             start
             (snd (decide_division small medium threshold (sub_area_km2 sub)
                     (case stats (COD_SUBC sub) of
                        Some s \<Rightarrow> s
                      | None \<Rightarrow> \<lparr> count = 0, stats_area_km2 = 0, density = 0 \<rparr>)))
           = Inr (units_of hrus sub)"
      by blast
    from rows False have none: "filter (\<lambda>h. subcuenca_cod h = COD_SUBC sub) units = []"
      by (auto simp: filter_empty_conv)
    have "generate_loop small medium threshold stats (s # subs) start0 = Inr (units @ hrus)"
      by (simp add: dec d g)
    moreover have "units_of (units @ hrus) sub = units_of hrus sub"
      by (simp add: units_of_def none)
    ultimately show ?thesis
      using u by (intro exI [of _ "units @ hrus"] exI [of _ start]) simp
  qed
qed

lemma band_meets_iff:
  "band_meets g n i = (\<exists>b\<in>set g. box_inter b (band_box g n i) \<noteq> None)"
  by (auto simp: band_meets_def intersection_def List.map_filter_def filter_empty_conv)

lemma bounds_valid:
  assumes "valid_geom g" and "bounds g = (minx, miny, maxx, maxy)"
  shows "\<forall>(x1, y1, x2, y2)\<in>set g. minx \<le> x1 \<and> x2 \<le> maxx \<and> miny \<le> y1 \<and> y2 \<le> maxy \<and>
                                    x1 \<le> x2 \<and> y1 \<le> y2"
    and "\<exists>(x1, y1, x2, y2)\<in>set g. y1 = miny"
    and "\<exists>(x1, y1, x2, y2)\<in>set g. y2 = maxy"
proof -
  from assms(1) have ne: "g \<noteq> []"
    and wf: "\<forall>(x1, y1, x2, y2)\<in>set g. x1 \<le> x2 \<and> y1 \<le> y2"
    by (auto simp: valid_geom_def list_all_iff)
  from assms(2) have
    minx: "minx = Min (set (map (\<lambda>(x1, y1, x2, y2). x1) g))"
    and miny: "miny = Min (set (map (\<lambda>(x1, y1, x2, y2). y1) g))"
    and maxx: "maxx = Max (set (map (\<lambda>(x1, y1, x2, y2). x2) g))"
    and maxy: "maxy = Max (set (map (\<lambda>(x1, y1, x2, y2). y2) g))"
    by (simp_all add: bounds_def)
  show "\<forall>(x1, y1, x2, y2)\<in>set g. minx \<le> x1 \<and> x2 \<le> maxx \<and> miny \<le> y1 \<and> y2 \<le> maxy \<and>
                                    x1 \<le> x2 \<and> y1 \<le> y2"
  proof (clarify, intro conjI)
    fix x1 y1 x2 y2 assume b: "(x1, y1, x2, y2) \<in> set g"
    then have "x1 \<in> set (map (\<lambda>(x1, y1, x2, y2). x1) g)" "y1 \<in> set (map (\<lambda>(x1, y1, x2, y2). y1) g)"
      "x2 \<in> set (map (\<lambda>(x1, y1, x2, y2). x2) g)" "y2 \<in> set (map (\<lambda>(x1, y1, x2, y2). y2) g)"
      by force+
    then show "minx \<le> x1" "x2 \<le> maxx" "miny \<le> y1" "y2 \<le> maxy"
      unfolding minx miny maxx maxy by simp_all
    from wf b show "x1 \<le> x2" "y1 \<le> y2"
      by auto
  qed
  from ne have "Min (set (map (\<lambda>(x1, y1, x2, y2). y1) g)) \<in> set (map (\<lambda>(x1, y1, x2, y2). y1) g)"
    by (intro Min_in) simp_all
  then show "\<exists>(x1, y1, x2, y2)\<in>set g. y1 = miny"
    unfolding miny by auto
  from ne have "Max (set (map (\<lambda>(x1, y1, x2, y2). y2) g)) \<in> set (map (\<lambda>(x1, y1, x2, y2). y2) g)"
    by (intro Max_in) simp_all
  then show "\<exists>(x1, y1, x2, y2)\<in>set g. y2 = maxy"
    unfolding maxy by auto
qed

lemma first_band_meets:
  assumes "valid_geom g" and "0 < n"
  shows "band_meets g n 0"
proof -
  obtain minx miny maxx maxy where bd: "bounds g = (minx, miny, maxx, maxy)"
    by (cases "bounds g") auto
  from bounds_valid(2) [OF assms(1) bd] obtain x1 y1 x2 y2 where
    b: "(x1, y1, x2, y2) \<in> set g" and low: "y1 = miny"
    by auto
  from bounds_valid(1) [OF assms(1) bd] b have
    ineq: "minx \<le> x1" "x2 \<le> maxx" "miny \<le> y1" "y2 \<le> maxy" "x1 \<le> x2" "y1 \<le> y2"
    by auto
  then have "0 \<le> (maxy - miny) / real n"
    using assms(2) by simp
  with ineq low have "box_inter (x1, y1, x2, y2) (band_box g n 0) \<noteq> None"
    by (simp add: box_inter_def band_box_def bd Let_def max_def min_def)
  with b show ?thesis
    unfolding band_meets_iff by blast
qed

lemma last_band_meets:
  assumes "valid_geom g" and "0 < n"
  shows "band_meets g n (n - 1)"
proof -
  obtain minx miny maxx maxy where bd: "bounds g = (minx, miny, maxx, maxy)"
    by (cases "bounds g") auto
  from bounds_valid(3) [OF assms(1) bd] obtain x1 y1 x2 y2 where
    b: "(x1, y1, x2, y2) \<in> set g" and high: "y2 = maxy"
    by auto
  from bounds_valid(1) [OF assms(1) bd] b have
    ineq: "minx \<le> x1" "x2 \<le> maxx" "miny \<le> y1" "y2 \<le> maxy" "x1 \<le> x2" "y1 \<le> y2"
    by auto
  from assms(2) have top: "miny + (maxy - miny) / real n * real (n - 1 + 1) = maxy"
    by simp
  have "(maxy - miny) / real n * real (n - 1) \<le> (maxy - miny) / real n * real n"
    using ineq high assms(2) by (intro mult_left_mono) simp_all
  then have bottom: "miny + (maxy - miny) / real n * real (n - 1) \<le> maxy"
    using assms(2) by simp
  from ineq high top bottom
  have "box_inter (x1, y1, x2, y2) (band_box g n (n - 1)) \<noteq> None"
    by (simp add: box_inter_def band_box_def bd Let_def max_def min_def)
  with b show ?thesis
    unfolding band_meets_iff by blast
qed

lemma divide_subcuenca_count:
  assumes "valid_geom (geometry sub)" and "n \<in> {1, 2, 3}"
    and "divide_subcuenca sub n start why = Inr units"
  shows "length units = (if n = 3 \<and> \<not> band_meets (geometry sub) 3 1 then 2 else n)"
proof -
  have u2: "[0 ..< 2] = [0, 1 :: nat]" and u3: "[0 ..< 3] = [0, 1, 2 :: nat]"
    by (simp_all add: upt_rec)
  from first_band_meets [OF assms(1), of 2] last_band_meets [OF assms(1), of 2]
  have two: "band_meets (geometry sub) 2 0" "band_meets (geometry sub) 2 1"
    by simp_all
  from first_band_meets [OF assms(1), of 3] last_band_meets [OF assms(1), of 3]
  have three: "band_meets (geometry sub) 3 0" "band_meets (geometry sub) 3 2"
    by simp_all
  from divide_subcuenca_rows [OF assms(2), of sub start why] assms(3)
  have len: "length units =
      (if n = 1 then 1 else length (filter (band_meets (geometry sub) n) [0 ..< n]))"
    by auto
  from assms(2) consider "n = 1" | "n = 2" | "n = 3"
    by auto
  then show ?thesis
  proof cases
    case 1
    with len show ?thesis by simp
  next
    case 2
    with len two show ?thesis by (simp add: u2)
  next
    case 3
    with len three show ?thesis by (simp add: u3)
  qed
qed

lemma decide_division_spec:
  "fst (decide_division 50 200 5 (sub_area_km2 sub) (stats_of sub)) =
     spec_divisions (sub_area_km2 sub) (length (glaciers_in sub)) (glacier_density sub)"
  by (cases "glaciers_in sub")
     (simp_all add: decide_division_def spec_divisions_def stats_of_def glacier_density_def
        Let_def)

lemma spec_divisions_range:
  "spec_divisions area glaciers dens \<in> {1, 2, 3}"
  by (simp add: spec_divisions_def)

lemma spec_band_meets_iff:
  assumes "valid_geom g" and "0 < n"
  shows "band_meets g n i = spec_band_meets g n i"
proof -
  obtain minx miny maxx maxy where bd: "bounds g = (minx, miny, maxx, maxy)"
    by (cases "bounds g") auto
  then have miny: "miny = Min (set (map (\<lambda>(x1, y1, x2, y2). y1) g))"
    and maxy: "maxy = Max (set (map (\<lambda>(x1, y1, x2, y2). y2) g))"
    by (simp_all add: bounds_def)
  from bounds_valid(2) [OF assms(1) bd] bounds_valid(1) [OF assms(1) bd]
  have height: "0 \<le> maxy - miny"
    by fastforce
  let ?lo = "miny + (maxy - miny) / real n * real i"
  let ?hi = "miny + (maxy - miny) / real n * real (i + 1)"
  have "(maxy - miny) / real n * real i \<le> (maxy - miny) / real n * real (i + 1)"
    using height assms(2) by (intro mult_left_mono) simp_all
  then have strip: "?lo \<le> ?hi"
    by simp
  have box: "band_box g n i = (minx, ?lo, maxx, ?hi)"
    by (simp add: band_box_def bd Let_def)
  have one: "(box_inter (x1, y1, x2, y2) (band_box g n i) \<noteq> None) = (y1 \<le> ?hi \<and> ?lo \<le> y2)"
    if b: "(x1, y1, x2, y2) \<in> set g" for x1 y1 x2 y2
  proof -
    from bounds_valid(1) [OF assms(1) bd] b have
      "minx \<le> x1" "x2 \<le> maxx" "x1 \<le> x2" "y1 \<le> y2"
      by auto
    with strip show ?thesis
      by (auto simp: box box_inter_def Let_def max_def min_def)
  qed
  have "band_meets g n i = (\<exists>b\<in>set g. box_inter b (band_box g n i) \<noteq> None)"
    by (rule band_meets_iff)
  also have "\<dots> = (\<exists>(x1, y1, x2, y2)\<in>set g. y1 \<le> ?hi \<and> ?lo \<le> y2)"
    using one by fastforce
  also have "\<dots> = spec_band_meets g n i"
    by (simp add: spec_band_meets_def Let_def list_ex_iff miny maxy algebra_simps
        del: of_nat_Suc of_nat_add)
  finally show ?thesis .
qed

lemma spec_thresholds_bound:
  assumes "spec_thresholds passed"
  shows "well_passed passed"
    and "arg_value passed ''small_km2'' 50 = 50"
    and "arg_value passed ''medium_km2'' 200 = 200"
    and "arg_value passed ''glacier_density_threshold'' 5 = 5"
proof -
  from assms have d: "distinct (map fst passed)"
    and vals: "\<forall>(name, v)\<in>set passed. (name, num_value v) \<in>
                  set [(''small_km2'', 50), (''medium_km2'', 200),
                       (''glacier_density_threshold'', 5)]"
    by (simp_all add: spec_thresholds_def list_all_iff)
  from d vals show "well_passed passed"
    by (fastforce simp: well_passed_def list_all_iff)
  have v: "num_value v = x"
    if "map_of passed name = Some v" and
      "(name, x) \<in> set [(''small_km2'', 50), (''medium_km2'', 200),
                       (''glacier_density_threshold'', 5)]" for name v and x :: real
  proof -
    from that(1) have "(name, v) \<in> set passed"
      by (rule map_of_SomeD)
    with vals have "(name, num_value v) \<in>
                  set [(''small_km2'', 50), (''medium_km2'', 200),
                       (''glacier_density_threshold'', 5)]"
      by auto
    with that(2) show ?thesis
      by auto
  qed
  show "arg_value passed ''small_km2'' 50 = 50"
    using v [of "''small_km2''" _ 50] by (simp add: arg_value_def split: option.splits)
  show "arg_value passed ''medium_km2'' 200 = 200"
    using v [of "''medium_km2''" _ 200] by (simp add: arg_value_def split: option.splits)
  show "arg_value passed ''glacier_density_threshold'' 5 = 5"
    using v [of "''glacier_density_threshold''" _ 5] by (simp add: arg_value_def split: option.splits)
qed

lemma generate_hrus_body_units:
  assumes uniq: "filter (\<lambda>s. COD_SUBC s = COD_SUBC sub) subs = [sub]"
    and valid: "valid_geom (geometry sub)"
    and th: "spec_thresholds passed"
  shows "\<exists>hrus start why. generate_hrus_body subs passed = Inr hrus \<and>
           divide_subcuenca sub
             (spec_divisions (sub_area_km2 sub) (length (glaciers_in sub)) (glacier_density sub))
             start why = Inr (units_of hrus sub)"
proof -
  let ?n = "spec_divisions (sub_area_km2 sub) (length (glaciers_in sub)) (glacier_density sub)"
  from generate_loop_units [OF uniq, of 50 200 5 "calculate_glacier_stats subs" 0]
  obtain hrus start why where
    g: "generate_loop 50 200 5 (calculate_glacier_stats subs) subs 0 = Inr hrus"
    and u: "divide_subcuenca sub ?n start why = Inr (units_of hrus sub)"
    by (auto simp: stats_unique_code [OF uniq] decide_division_spec)
  have range: "?n \<in> {1, 2, 3}"
    by (rule spec_divisions_range)
  from divide_subcuenca_count [OF valid range u] range
  have "0 < length (units_of hrus sub)"
    by (auto split: if_splits)
  then have "hrus \<noteq> []"
    by (auto simp: units_of_def)
  with g spec_thresholds_bound [OF th] have "generate_hrus_body subs passed = Inr hrus"
    by (simp add: generate_hrus_body_def)
  with u show ?thesis
    by blast
qed

text \<open>
  Claim C6, as the specification states it: every sub-basin of 200 square kilometres or
  more with a glacier density above 5% yields 3 units, and every sub-basin from 50 to
  200 square kilometres with at least one glacier yields 2. A sub-basin of 300 square
  kilometres and density 6.67% whose geometry has two parts, with the middle band
  between them, yields 2 units; of two rows with the same code, the first with a
  glacier, each yields 1 unit, as the statistics are kept by code; and a call for a
  table with one sub-basin of 300 square kilometres and density 6.67%, one minute after
  a call with the same thresholds for a table with one sub-basin of 40 square
  kilometres, returns the one unit of the first call: the tables are no part of the key
  of the cache.
\<close>

theorem generate_hrus_three_units_counterexample:
  "sub_area_km2 example_two_parts = 300 \<and>
   glacier_density example_two_parts > 5 \<and>
   map_sum id (map n_divisions)
     (fst (generate_hrus Map.empty 0 [example_two_parts] example_call)) = Inr [3, 3] \<and>
   map sub_area_km2 example_same_code = [120, 120] \<and>
   map (length \<circ> glaciers_in) example_same_code = [1, 0] \<and>
   map_sum id (map n_divisions)
     (fst (generate_hrus Map.empty 0 example_same_code example_call)) = Inr [1, 1] \<and>
   map (\<lambda>s. (COD_SUBC s, sub_area_km2 s, glacier_density s > 5))
     [example_table ! 0, example_table ! 3] = [(''A'', 40, False), (''D'', 300, True)] \<and>
   map_sum id (map (\<lambda>h. (subcuenca_cod h, n_divisions h)))
     (fst (generate_hrus
             (snd (generate_hrus Map.empty 0 [example_table ! 0] example_call))
             60 [example_table ! 3] example_call)) = Inr [(''A'', 1)]"
  by code_simp

text \<open>
  Claim C6, amended: a call of generate_hrus with the thresholds 50, 200 and 5 that finds
  no value stored in the cache for its arguments less than 3600 seconds ago decides, for
  every sub-basin whose code is unique in the table and whose geometry is not empty, the
  number of divisions by the table in order: area below 50: 1, whatever the glaciers;
  from 50 to below 200: 1 without an intersecting glacier, 2 with one or more; 200 and
  more: 3 when the glacier density is above 5%, 2 otherwise, with or without glaciers.
  The sub-basin yields one unit for each band that its geometry meets: as many units as
  divisions, except 2 units for 3 divisions when the geometry does not meet the middle
  band. The call stores the table of units under its arguments; a call that finds a
  value stored less than 3600 seconds ago returns that value, whatever the table of
  sub-basins. The sub-basins of the specification, with a geometry in one piece and an
  empty cache, yield 1, 1, 2, 3 and 2 units, with the thresholds passed and with the
  thresholds left to their defaults.
\<close>

theorem generate_hrus_division_table:
  assumes "filter (\<lambda>s. COD_SUBC s = COD_SUBC sub) subs = [sub]"
    and "valid_geom (geometry sub)"
    and "spec_thresholds passed"
  shows "((case cache passed of None \<Rightarrow> True | Some (stored_at, stored) \<Rightarrow> stored_at + 3600 \<le> now) \<longrightarrow>
           (\<exists>hrus. generate_hrus cache now subs passed =
                     (Inr hrus, cache(passed \<mapsto> (now, hrus))) \<and>
              list_all
                (\<lambda>h. n_divisions h =
                       spec_divisions (sub_area_km2 sub) (length (glaciers_in sub))
                         (glacier_density sub))
                (units_of hrus sub) \<and>
              length (units_of hrus sub) =
                (if spec_divisions (sub_area_km2 sub) (length (glaciers_in sub))
                      (glacier_density sub) = 3 \<and>
                    \<not> spec_band_meets (geometry sub) 3 1
                 then 2
                 else spec_divisions (sub_area_km2 sub) (length (glaciers_in sub))
                        (glacier_density sub)))) \<and>
         (\<forall>stored_at stored.
            cache passed = Some (stored_at, stored) \<and> now < stored_at + 3600 \<longrightarrow>
            generate_hrus cache now subs passed = (Inr stored, cache)) \<and>
         map (\<lambda>s. (sub_area_km2 s, length (glaciers_in s), glacier_density s > 5))
             example_table =
           [(40, 1, False), (120, 0, False), (120, 1, False),
            (300, 1, True), (300, 1, False), (300, 0, False)] \<and>
         map_sum id (\<lambda>hrus. map (\<lambda>s. length (units_of hrus s)) example_table)
             (fst (generate_hrus Map.empty 0 example_table example_call)) =
           Inr [1, 1, 2, 3, 2, 2] \<and>
         map_sum id (\<lambda>hrus. map (\<lambda>s. length (units_of hrus s)) example_table)
             (fst (generate_hrus Map.empty 0 example_table [])) =
           Inr [1, 1, 2, 3, 2, 2]"
proof (intro conjI impI allI)
  let ?n = "spec_divisions (sub_area_km2 sub) (length (glaciers_in sub)) (glacier_density sub)"
  assume "case cache passed of None \<Rightarrow> True | Some (stored_at, stored) \<Rightarrow> stored_at + 3600 \<le> now"
  then have miss: "cache_lookup cache now passed = None"
    by (auto simp: cache_lookup_def split: option.splits)
  from generate_hrus_body_units [OF assms] obtain hrus start why where
    g: "generate_hrus_body subs passed = Inr hrus"
    and u: "divide_subcuenca sub ?n start why = Inr (units_of hrus sub)"
    by blast
  have range: "?n \<in> {1, 2, 3}"
    by (rule spec_divisions_range)
  from miss g have "generate_hrus cache now subs passed =
      (Inr hrus, cache(passed \<mapsto> (now, hrus)))"
    by (simp add: generate_hrus_def)
  moreover from divide_subcuenca_rows [OF range, of sub start why] u
  have "list_all (\<lambda>h. n_divisions h = ?n) (units_of hrus sub)"
    by (auto simp: list_all_iff)
  moreover have "length (units_of hrus sub) =
      (if ?n = 3 \<and> \<not> spec_band_meets (geometry sub) 3 1 then 2 else ?n)"
    using divide_subcuenca_count [OF assms(2) range u]
      spec_band_meets_iff [OF assms(2), of 3 1]
    by simp
  ultimately show "\<exists>hrus. generate_hrus cache now subs passed =
                     (Inr hrus, cache(passed \<mapsto> (now, hrus))) \<and>
              list_all (\<lambda>h. n_divisions h = ?n) (units_of hrus sub) \<and>
              length (units_of hrus sub) =
                (if ?n = 3 \<and> \<not> spec_band_meets (geometry sub) 3 1 then 2 else ?n)"
    by blast
next
  fix stored_at stored
  assume "cache passed = Some (stored_at, stored) \<and> now < stored_at + 3600"
  then show "generate_hrus cache now subs passed = (Inr stored, cache)"
    by (simp add: generate_hrus_def cache_lookup_def)
next
  show "map (\<lambda>s. (sub_area_km2 s, length (glaciers_in s), glacier_density s > 5))
             example_table =
           [(40, 1, False), (120, 0, False), (120, 1, False),
            (300, 1, True), (300, 1, False), (300, 0, False)]"
    by code_simp
next
  show "map_sum id (\<lambda>hrus. map (\<lambda>s. length (units_of hrus s)) example_table)
             (fst (generate_hrus Map.empty 0 example_table example_call)) =
           Inr [1, 1, 2, 3, 2, 2]"
    by code_simp
next
  show "map_sum id (\<lambda>hrus. map (\<lambda>s. length (units_of hrus s)) example_table)
             (fst (generate_hrus Map.empty 0 example_table [])) =
           Inr [1, 1, 2, 3, 2, 2]"
    by code_simp
qed

theorem generate_hrus_division_table_witness:
  "filter (\<lambda>s. COD_SUBC s = COD_SUBC example_two_parts) [example_two_parts] = [example_two_parts] \<and>
   valid_geom (geometry example_two_parts) \<and>
   spec_thresholds example_call \<and>
   (\<exists>hrus. fst (generate_hrus Map.empty 0 [example_two_parts] example_call) = Inr hrus \<and>
      list_all (\<lambda>h. n_divisions h = 3) (units_of hrus example_two_parts) \<and>
      length (units_of hrus example_two_parts) = 2) \<and>
   (\<exists>hrus. fst (generate_hrus [example_call \<mapsto> (0, [])] 3600 [example_two_parts] example_call) =
              Inr hrus \<and>
      list_all (\<lambda>h. n_divisions h = 3) (units_of hrus example_two_parts) \<and>
      length (units_of hrus example_two_parts) = 2) \<and>
   fst (generate_hrus [example_call \<mapsto> (0, [])] 3599 [example_two_parts] example_call) = Inr []"
proof -
  have uniq: "filter (\<lambda>s. COD_SUBC s = COD_SUBC example_two_parts) [example_two_parts] =
                [example_two_parts]"
    by simp
  have valid: "valid_geom (geometry example_two_parts)"
    by (simp add: valid_geom_def example_two_parts_def example_sub_def)
  have th: "spec_thresholds example_call"
    by (simp add: spec_thresholds_def example_call_def)
  have n: "spec_divisions (sub_area_km2 example_two_parts)
             (length (glaciers_in example_two_parts)) (glacier_density example_two_parts) = 3"
    by (simp add: spec_divisions_def glacier_density_def example_two_parts_def example_sub_def)
  have gap: "\<not> spec_band_meets (geometry example_two_parts) 3 1"
    by code_simp
  from generate_hrus_division_table [OF uniq valid th, where cache = Map.empty and now = 0] n gap
  have first: "\<exists>hrus. fst (generate_hrus Map.empty 0 [example_two_parts] example_call) = Inr hrus \<and>
      list_all (\<lambda>h. n_divisions h = 3) (units_of hrus example_two_parts) \<and>
      length (units_of hrus example_two_parts) = 2"
    by auto
  from generate_hrus_division_table
      [OF uniq valid th, where cache = "[example_call \<mapsto> (0, [])]" and now = 3600] n gap
  have expired: "\<exists>hrus. fst (generate_hrus [example_call \<mapsto> (0, [])] 3600 [example_two_parts]
                         example_call) = Inr hrus \<and>
      list_all (\<lambda>h. n_divisions h = 3) (units_of hrus example_two_parts) \<and>
      length (units_of hrus example_two_parts) = 2"
    by auto
  from generate_hrus_division_table
      [OF uniq valid th, where cache = "[example_call \<mapsto> (0, [])]" and now = 3599]
  have stored: "fst (generate_hrus [example_call \<mapsto> (0, [])] 3599 [example_two_parts] example_call) =
      Inr []"
    by simp
  from uniq valid th first expired stored show ?thesis
    by blast
qed

end
